theory Spec2Isabelle
  imports Complex_Main "HOL-Library.Sublist" "HOL-Library.Multiset"
begin

section \<open>Python values\<close>

text \<open>
  A Python \<open>str\<close> is a sequence of Unicode code points, so it is modelled as a list of
  natural numbers: \<open>len\<close> is \<open>length\<close>, slicing is \<open>take\<close>/\<open>drop\<close>, and
  \<open>a in b\<close> on two strings is the test for a contiguous sublist. ASCII literals of the
  source are written with \<open>ascii\<close>; the Chinese literals are written as their code
  points.
\<close>

type_synonym ustr = "nat list"

definition ascii :: "string \<Rightarrow> ustr" where
  "ascii s = map of_char s"

text \<open>
  Exceptions are values. The interpreter's message texts are not modelled; where the
  source formats \<open>str(e)\<close> the model takes the formatting function as a parameter.
  \<open>LibraryError\<close> stands for whatever a third-party library call may raise.
\<close>

datatype pyerr =
    TypeError
  | ValueError
  | KeyError
  | FileNotFoundError
  | UnicodeDecodeError
  | OSError
  | LibraryError nat

text \<open>
  The values that travel through the request dictionaries. A \<open>dict\<close> keeps its keys in
  insertion order, so it is an association list; \<open>map_of\<close> is the lookup. A \<open>float\<close>
  is carried as the rational number its decimal literal denotes: the only float operation
  the modelled code performs itself is the comparison \<open>confidence > 0\<close>.
\<close>

datatype pyval =
    PNone
  | PBool bool
  | PInt int
  | PFloat rat
  | PStr ustr
  | PList "pyval list"
  | PDict "(ustr \<times> pyval) list"

type_synonym pydict = "(ustr \<times> pyval) list"

text \<open>\<open>needle in haystack\<close> on two strings: some suffix of the haystack starts with the needle.\<close>

fun str_contains :: "ustr \<Rightarrow> ustr \<Rightarrow> bool" where
  "str_contains needle [] = (needle = [])"
| "str_contains needle (c # s) = (prefix needle (c # s) \<or> str_contains needle s)"

text \<open>
  \<open>x in container\<close> for a string \<open>x\<close>: substring test on a \<open>str\<close>, membership in a
  \<open>list\<close>, key membership in a \<open>dict\<close>; any other right operand is not iterable and
  raises TypeError.
\<close>

fun py_in :: "ustr \<Rightarrow> pyval \<Rightarrow> pyerr + bool" where
  "py_in x (PStr s) = Inr (str_contains x s)"
| "py_in x (PList vs) = Inr (PStr x \<in> set vs)"
| "py_in x (PDict d) = Inr (map_of d x \<noteq> None)"
| "py_in x PNone = Inl TypeError"
| "py_in x (PBool b) = Inl TypeError"
| "py_in x (PInt i) = Inl TypeError"
| "py_in x (PFloat f) = Inl TypeError"

text \<open>\<open>container[key]\<close> for a string key: only a \<open>dict\<close> can be indexed by a string.\<close>

fun py_getitem :: "pyval \<Rightarrow> ustr \<Rightarrow> pyerr + pyval" where
  "py_getitem (PDict d) k = (case map_of d k of None \<Rightarrow> Inl KeyError | Some v \<Rightarrow> Inr v)"
| "py_getitem v k = Inl TypeError"

text \<open>Truth value of an object in a condition.\<close>

fun py_truthy :: "pyval \<Rightarrow> bool" where
  "py_truthy PNone = False"
| "py_truthy (PBool b) = b"
| "py_truthy (PInt i) = (i \<noteq> 0)"
| "py_truthy (PFloat f) = (f \<noteq> 0)"
| "py_truthy (PStr s) = (s \<noteq> [])"
| "py_truthy (PList vs) = (vs \<noteq> [])"
| "py_truthy (PDict d) = (d \<noteq> [])"

text \<open>\<open>len(x)\<close>: defined on strings, lists and dicts, TypeError otherwise.\<close>

fun py_len :: "pyval \<Rightarrow> pyerr + int" where
  "py_len (PStr s) = Inr (int (length s))"
| "py_len (PList vs) = Inr (int (length vs))"
| "py_len (PDict d) = Inr (int (length d))"
| "py_len v = Inl TypeError"

text \<open>\<open>type(x).__name__\<close>.\<close>

fun type_name :: "pyval \<Rightarrow> ustr" where
  "type_name PNone = ascii ''NoneType''"
| "type_name (PBool b) = ascii ''bool''"
| "type_name (PInt i) = ascii ''int''"
| "type_name (PFloat f) = ascii ''float''"
| "type_name (PStr s) = ascii ''str''"
| "type_name (PList vs) = ascii ''list''"
| "type_name (PDict d) = ascii ''dict''"

section \<open>IntelligentAssistant: recognising what a request needs\<close>

text \<open>
  \<open>self.knowledge_base["keywords"]\<close>, in the order the dictionary literal of
  \<open>IntelligentAssistant.__init__\<close> lists the skills; each keyword is written as its code
  points.
\<close>

definition knowledge_base_keywords :: "(ustr \<times> ustr list) list" where
  "knowledge_base_keywords =
     [(ascii ''text_analysis'',
        [[0x6587, 0x672C], [0x5206, 0x6790], [0x60C5, 0x611F], [0x5206, 0x7C7B], [0x5173, 0x952E, 0x8BCD]]),
      (ascii ''historical_research'',
        [[0x5386, 0x53F2], [0x53F2, 0x6599], [0x8003, 0x8BC1], [0x7F16, 0x5E74], [0x5730, 0x7406]]),
      (ascii ''art_cultural_research'',
        [[0x827A, 0x672F], [0x6587, 0x5316], [0x98CE, 0x683C], [0x9057, 0x4EA7], [0x6BD4, 0x8F83]]),
      (ascii ''language_research'',
        [[0x8BED, 0x8A00], [0x8BED, 0x8A00, 0x5B66], [0x8BED, 0x6599, 0x5E93], [0x65B9, 0x8A00], [0x6F14, 0x53D8]]),
      (ascii ''philosophy_research'',
        [[0x54F2, 0x5B66], [0x601D, 0x60F3], [0x6982, 0x5FF5], [0x8BBA, 0x8BC1], [0x8BED, 0x4E49]]),
      (ascii ''social_cultural_analysis'',
        [[0x793E, 0x4F1A], [0x6587, 0x5316], [0x7F51, 0x7EDC], [0x8D8B, 0x52BF], [0x5A92, 0x4F53]]),
      (ascii ''cultural_heritage'',
        [[0x9057, 0x4EA7], [0x4FDD, 0x62A4], [0x4F20, 0x627F], [0x5EFA, 0x6863], [0x91CD, 0x5EFA]]),
      (ascii ''public_education'',
        [[0x6559, 0x80B2], [0x516C, 0x4F17], [0x6545, 0x4E8B], [0x793E, 0x533A], [0x8D44, 0x6E90]])]"

text \<open>The \<open>needs\<close> dictionary of \<open>identify_needs\<close>: its five keys never change.\<close>

record needs =
  request_type :: ustr
  data_types :: "ustr list"
  intent :: ustr
  confidence :: rat
  data :: pydict

definition initial_needs :: needs where
  "initial_needs =
     \<lparr>request_type = ascii ''unknown'', data_types = [], intent = [], confidence = 0, data = []\<rparr>"

text \<open>
  One of the eight \<open>if "k" in request\<close> branches: the request type, the data type key
  appended to \<open>data_types\<close>, the intent, confidence \<open>0.9\<close>, and \<open>data\<close> holding only
  the value stored under the key.
\<close>

definition data_branch :: "ustr \<Rightarrow> ustr \<Rightarrow> ustr \<Rightarrow> pyval \<Rightarrow> needs" where
  "data_branch rtype key purpose v =
     initial_needs\<lparr>request_type := rtype, data_types := [key], intent := purpose,
                   confidence := 9 / 10, data := [(key, v)]\<rparr>"

text \<open>
  The inner loop \<open>for keyword in keywords\<close>: the first keyword found in the description
  sets the four fields and breaks. The test \<open>keyword in description\<close> raises when the
  description is not iterable.
\<close>

fun keyword_loop :: "needs \<Rightarrow> pydict \<Rightarrow> ustr \<Rightarrow> ustr list \<Rightarrow> pyval \<Rightarrow> pyerr + needs" where
  "keyword_loop nd request skill [] description = Inr nd"
| "keyword_loop nd request skill (keyword # rest) description =
     (case py_in keyword description of
        Inl e \<Rightarrow> Inl e
      | Inr True \<Rightarrow>
          Inr (nd\<lparr>request_type := skill, intent := ascii ''process_'' @ skill,
                  confidence := 7 / 10, data := request\<rparr>)
      | Inr False \<Rightarrow> keyword_loop nd request skill rest description)"

text \<open>
  The outer loop \<open>for skill, keywords in ...items()\<close>, left by
  \<open>if needs["confidence"] > 0: break\<close>.
\<close>

fun skill_loop :: "needs \<Rightarrow> pydict \<Rightarrow> (ustr \<times> ustr list) list \<Rightarrow> pyval \<Rightarrow> pyerr + needs" where
  "skill_loop nd request [] description = Inr nd"
| "skill_loop nd request ((skill, keywords) # rest) description =
     (case keyword_loop nd request skill keywords description of
        Inl e \<Rightarrow> Inl e
      | Inr nd' \<Rightarrow>
          if confidence nd' > 0 then Inr nd'
          else skill_loop nd' request rest description)"

definition identify_needs :: "pydict \<Rightarrow> pyerr + needs" where
  "identify_needs request =
     (case map_of request (ascii ''text'') of Some v \<Rightarrow>
        Inr (data_branch (ascii ''text_analysis'') (ascii ''text'') (ascii ''analyze_text'') v)
      | None \<Rightarrow>
     (case map_of request (ascii ''historical_data'') of Some v \<Rightarrow>
        Inr (data_branch (ascii ''historical_research'') (ascii ''historical_data'')
               (ascii ''research_history'') v)
      | None \<Rightarrow>
     (case map_of request (ascii ''heritage_data'') of Some v \<Rightarrow>
        Inr (data_branch (ascii ''cultural_heritage'') (ascii ''heritage_data'')
               (ascii ''preserve_heritage'') v)
      | None \<Rightarrow>
     (case map_of request (ascii ''art_data'') of Some v \<Rightarrow>
        Inr (data_branch (ascii ''art_cultural_research'') (ascii ''art_data'')
               (ascii ''analyze_art'') v)
      | None \<Rightarrow>
     (case map_of request (ascii ''language_data'') of Some v \<Rightarrow>
        Inr (data_branch (ascii ''language_research'') (ascii ''language_data'')
               (ascii ''research_language'') v)
      | None \<Rightarrow>
     (case map_of request (ascii ''philosophy_data'') of Some v \<Rightarrow>
        Inr (data_branch (ascii ''philosophy_research'') (ascii ''philosophy_data'')
               (ascii ''research_philosophy'') v)
      | None \<Rightarrow>
     (case map_of request (ascii ''social_data'') of Some v \<Rightarrow>
        Inr (data_branch (ascii ''social_cultural_analysis'') (ascii ''social_data'')
               (ascii ''analyze_social'') v)
      | None \<Rightarrow>
     (case map_of request (ascii ''education_data'') of Some v \<Rightarrow>
        Inr (data_branch (ascii ''public_education'') (ascii ''education_data'')
               (ascii ''educate_public'') v)
      | None \<Rightarrow>
     (case map_of request (ascii ''description'') of
        None \<Rightarrow> Inr initial_needs
      | Some description \<Rightarrow>
          skill_loop initial_needs request knowledge_base_keywords description)))))))))"

text \<open>The four assignments made when a keyword is found, as one record update.\<close>

definition keyword_hit :: "needs \<Rightarrow> pydict \<Rightarrow> ustr \<Rightarrow> needs" where
  "keyword_hit nd request skill =
     nd\<lparr>request_type := skill, intent := ascii ''process_'' @ skill,
        confidence := 7 / 10, data := request\<rparr>"

text \<open>The eight keys tested by the branches of \<open>identify_needs\<close>, in the order tested.\<close>

definition data_type_keys :: "ustr list" where
  "data_type_keys =
     [ascii ''text'', ascii ''historical_data'', ascii ''heritage_data'', ascii ''art_data'',
      ascii ''language_data'', ascii ''philosophy_data'', ascii ''social_data'',
      ascii ''education_data'']"

section \<open>The eight skills\<close>

text \<open>
  Every \<open>process\<close> method starts with the same lookup, here for the key \<open>key\<close>:
  \<^verbatim>\<open>
  x = None
  if key in data:
      x = data[key]
  elif "data" in data and key in data["data"]:
      x = data["data"][key]
  \<close>
\<close>

definition lookup_field :: "ustr \<Rightarrow> pydict \<Rightarrow> pyerr + pyval" where
  "lookup_field key d =
     (case map_of d key of
        Some v \<Rightarrow> Inr v
      | None \<Rightarrow>
          (case map_of d (ascii ''data'') of
             None \<Rightarrow> Inr PNone
           | Some inner \<Rightarrow>
               (case py_in key inner of
                  Inl e \<Rightarrow> Inl e
                | Inr found \<Rightarrow> if found then py_getitem inner key else Inr PNone)))"

text \<open>The \<open>result\<close> dictionary every skill returns, with its four keys in order.\<close>

definition skill_result :: "ustr \<Rightarrow> pyval list \<Rightarrow> pydict \<Rightarrow> pyval" where
  "skill_result name operations results =
     PDict [(ascii ''skill'', PStr name), (ascii ''processed'', PBool True),
            (ascii ''operations'', PList operations), (ascii ''results'', PDict results)]"

subsection \<open>TextAnalysis\<close>

text \<open>
  \<open>string.punctuation\<close> followed by the second literal of \<open>_extract_keywords\<close>. In the
  source that literal is two adjacent string literals, so the two double quotes are
  delimiters and only the two apostrophes are characters of it.
\<close>

definition punctuation :: ustr where
  "punctuation =
     [33, 34, 35, 36, 37, 38, 39, 40, 41, 42, 43, 44, 45, 46, 47, 58, 59, 60, 61, 62, 63, 64,
      91, 92, 93, 94, 95, 96, 123, 124, 125, 126]
     @ [0x20, 0x3000, 0xFF0C, 0x3002, 0xFF01, 0xFF1F, 0xFF1B, 0xFF1A, 0x27, 0x27, 0xFF08,
        0xFF09, 0x3010, 0x3011, 0x5B, 0x5D, 0x7B, 0x7D, 0x5C, 0x7C, 0x2F]"

text \<open>Iterating over a value: the characters of a string, the items of a list, the keys of a dict.\<close>

fun py_iter :: "pyval \<Rightarrow> pyerr + pyval list" where
  "py_iter (PStr s) = Inr (map (\<lambda>c. PStr [c]) s)"
| "py_iter (PList vs) = Inr vs"
| "py_iter (PDict d) = Inr (map (\<lambda>(k, v). PStr k) d)"
| "py_iter v = Inl TypeError"

text \<open>
  \<open>''.join([c for c in text if c not in punctuation])\<close>: the test \<open>c not in punctuation\<close>
  raises TypeError when \<open>c\<close> is not a string.
\<close>

fun clean_chars :: "pyval list \<Rightarrow> pyerr + ustr" where
  "clean_chars [] = Inr []"
| "clean_chars (PStr c # rest) =
     (case clean_chars rest of
        Inl e \<Rightarrow> Inl e
      | Inr s \<Rightarrow> Inr (if str_contains c punctuation then s else c @ s))"
| "clean_chars (v # rest) = Inl TypeError"

text \<open>\<open>[cleaned_text[i:i+2] for i in range(len(cleaned_text) - 1)]\<close>; each slice has length 2.\<close>

fun bigrams :: "ustr \<Rightarrow> ustr list" where
  "bigrams (a # b # s) = [a, b] # bigrams (b # s)"
| "bigrams s = []"

text \<open>\<open>word_counts[word] = word_counts.get(word, 0) + 1\<close> on a dict in insertion order.\<close>

fun count_word :: "(ustr \<times> nat) list \<Rightarrow> ustr \<Rightarrow> (ustr \<times> nat) list" where
  "count_word [] w = [(w, 1)]"
| "count_word ((k, n) # rest) w =
     (if k = w then (k, n + 1) # rest else (k, n) # count_word rest w)"

text \<open>
  \<open>_extract_keywords(text)\<close> with the default \<open>num_keywords = 10\<close>. The character counts
  the source also computes are never read and are left out. \<open>sorted(..., reverse=True)\<close> is
  stable, so it is the stable sort by descending count.
\<close>

definition extract_keywords :: "pyval \<Rightarrow> pyerr + ustr list" where
  "extract_keywords text =
     (case py_iter text of
        Inl e \<Rightarrow> Inl e
      | Inr cs \<Rightarrow>
          (case clean_chars cs of
             Inl e \<Rightarrow> Inl e
           | Inr cleaned_text \<Rightarrow>
               (let word_counts = foldl count_word [] (bigrams cleaned_text);
                    sorted_words = sort_key (\<lambda>(w, n). - int n) word_counts
                in Inr (map fst (take 10 sorted_words)))))"

definition text_analysis_process :: "pydict \<Rightarrow> pyerr + pyval" where
  "text_analysis_process d =
     (case lookup_field (ascii ''text'') d of
        Inl e \<Rightarrow> Inl e
      | Inr text \<Rightarrow>
          if py_truthy text then
            (case py_len text of
               Inl e \<Rightarrow> Inl e
             | Inr n \<Rightarrow>
                 (case extract_keywords text of
                    Inl e \<Rightarrow> Inl e
                  | Inr keywords \<Rightarrow>
                      Inr (skill_result (ascii ''text_analysis'')
                             [PStr (ascii ''text_processing'')]
                             [(ascii ''text_length'', PInt n),
                              (ascii ''character_count'', PInt n),
                              (ascii ''keywords'', PList (map PStr keywords))])))
          else Inr (skill_result (ascii ''text_analysis'') [] []))"

subsection \<open>The seven other skills\<close>

definition historical_research_process :: "pydict \<Rightarrow> pyerr + pyval" where
  "historical_research_process d =
     (case lookup_field (ascii ''historical_data'') d of
        Inl e \<Rightarrow> Inl e
      | Inr historical_data \<Rightarrow>
          if py_truthy historical_data then
            Inr (skill_result (ascii ''historical_research'')
                   [PStr (ascii ''historical_data_processing'')]
                   (case historical_data of
                      PList vs \<Rightarrow> [(ascii ''data_count'', PInt (int (length vs)))]
                    | _ \<Rightarrow> [(ascii ''data_processed'', PBool True)]))
          else Inr (skill_result (ascii ''historical_research'') [] []))"

definition art_cultural_research_process :: "pydict \<Rightarrow> pyerr + pyval" where
  "art_cultural_research_process d =
     (case lookup_field (ascii ''art_data'') d of
        Inl e \<Rightarrow> Inl e
      | Inr art_data \<Rightarrow>
          if py_truthy art_data then
            Inr (skill_result (ascii ''art_cultural_research'')
                   [PStr (ascii ''art_data_processing'')]
                   [(ascii ''data_type'', PStr (type_name art_data))])
          else Inr (skill_result (ascii ''art_cultural_research'') [] []))"

text \<open>
  The remaining five classes differ only in the skill name, the key looked up, the
  operation recorded and the flag set in \<open>results\<close>.
\<close>

definition flag_process :: "ustr \<Rightarrow> ustr \<Rightarrow> ustr \<Rightarrow> ustr \<Rightarrow> pydict \<Rightarrow> pyerr + pyval" where
  "flag_process name key operation flag d =
     (case lookup_field key d of
        Inl e \<Rightarrow> Inl e
      | Inr v \<Rightarrow>
          if py_truthy v then
            Inr (skill_result name [PStr operation] [(flag, PBool True)])
          else Inr (skill_result name [] []))"

definition language_research_process :: "pydict \<Rightarrow> pyerr + pyval" where
  "language_research_process =
     flag_process (ascii ''language_research'') (ascii ''language_data'')
       (ascii ''language_data_processing'') (ascii ''data_processed'')"

definition philosophy_research_process :: "pydict \<Rightarrow> pyerr + pyval" where
  "philosophy_research_process =
     flag_process (ascii ''philosophy_research'') (ascii ''philosophy_data'')
       (ascii ''philosophy_data_processing'') (ascii ''data_analyzed'')"

definition social_cultural_analysis_process :: "pydict \<Rightarrow> pyerr + pyval" where
  "social_cultural_analysis_process =
     flag_process (ascii ''social_cultural_analysis'') (ascii ''social_data'')
       (ascii ''social_data_processing'') (ascii ''data_analyzed'')"

definition cultural_heritage_process :: "pydict \<Rightarrow> pyerr + pyval" where
  "cultural_heritage_process =
     flag_process (ascii ''cultural_heritage'') (ascii ''heritage_data'')
       (ascii ''heritage_data_processing'') (ascii ''data_processed'')"

definition public_education_process :: "pydict \<Rightarrow> pyerr + pyval" where
  "public_education_process =
     flag_process (ascii ''public_education'') (ascii ''education_data'')
       (ascii ''education_data_processing'') (ascii ''data_processed'')"

section \<open>DigitalHumanities.process_request\<close>

text \<open>\<open>self.skills\<close>: the dispatch table from skill name to \<open>process\<close> method.\<close>

definition skills :: "(ustr \<times> (pydict \<Rightarrow> pyerr + pyval)) list" where
  "skills =
     [(ascii ''text_analysis'', text_analysis_process),
      (ascii ''historical_research'', historical_research_process),
      (ascii ''art_cultural_research'', art_cultural_research_process),
      (ascii ''language_research'', language_research_process),
      (ascii ''philosophy_research'', philosophy_research_process),
      (ascii ''social_cultural_analysis'', social_cultural_analysis_process),
      (ascii ''cultural_heritage'', cultural_heritage_process),
      (ascii ''public_education'', public_education_process)]"

text \<open>The \<open>needs\<close> record as the dictionary the code passes around.\<close>

definition needs_dict :: "needs \<Rightarrow> pydict" where
  "needs_dict nd =
     [(ascii ''request_type'', PStr (request_type nd)),
      (ascii ''data_types'', PList (map PStr (data_types nd))),
      (ascii ''intent'', PStr (intent nd)),
      (ascii ''confidence'', PFloat (confidence nd)),
      (ascii ''data'', PDict (data nd))]"

text \<open>\<open>match_skills\<close>: a one-entry dictionary unless the request type is the empty string.\<close>

definition match_skills :: "needs \<Rightarrow> (ustr \<times> needs) list" where
  "match_skills identified_needs =
     (if request_type identified_needs \<noteq> []
      then [(request_type identified_needs, identified_needs)] else [])"

text \<open>
  The loop \<open>for skill_name, skill_data in matched_skills.items()\<close>: a name that is not in
  \<open>self.skills\<close> is skipped, and an exception of \<open>process\<close> ends the loop.
\<close>

fun run_skills :: "(ustr \<times> needs) list \<Rightarrow> pydict \<Rightarrow> pyerr + pydict" where
  "run_skills [] results = Inr results"
| "run_skills ((skill_name, skill_data) # rest) results =
     (case map_of skills skill_name of
        None \<Rightarrow> run_skills rest results
      | Some process \<Rightarrow>
          (case process (needs_dict skill_data) of
             Inl e \<Rightarrow> Inl e
           | Inr skill_res \<Rightarrow>
               run_skills rest (results @ [(skill_name, skill_res)])))"

definition validate_results :: "pydict \<Rightarrow> pyval" where
  "validate_results results =
     (if results = []
      then PDict [(ascii ''valid'', PBool False),
                  (ascii ''issues'', PList [PStr [0x6CA1, 0x6709, 0x5904, 0x7406, 0x7ED3, 0x679C]]),
                  (ascii ''confidence'', PFloat 0)]
      else PDict [(ascii ''valid'', PBool True),
                  (ascii ''issues'', PList []),
                  (ascii ''confidence'', PFloat (8 / 10))])"

text \<open>
  The \<open>try\<close> block of \<open>process_request\<close>. \<open>now\<close> is the reading of the clock that ends up
  in the result. \<open>update_system\<close> builds a dictionary that is thrown away and cannot raise,
  so it does not appear.
\<close>

definition process_request_body :: "ustr \<Rightarrow> pydict \<Rightarrow> pyerr + pyval" where
  "process_request_body now request =
     (case identify_needs request of
        Inl e \<Rightarrow> Inl e
      | Inr identified_needs \<Rightarrow>
          (let matched_skills = match_skills identified_needs in
           case run_skills matched_skills [] of
             Inl e \<Rightarrow> Inl e
           | Inr results \<Rightarrow>
               Inr (PDict
                 [(ascii ''request'', PDict request),
                  (ascii ''identified_needs'', PDict (needs_dict identified_needs)),
                  (ascii ''matched_skills'',
                     PDict (map (\<lambda>(k, nd). (k, PDict (needs_dict nd))) matched_skills)),
                  (ascii ''results'', PDict results),
                  (ascii ''validation'', validate_results results),
                  (ascii ''timestamp'', PStr now),
                  (ascii ''version'', PStr (ascii ''1.0.0''))])))"

text \<open>
  \<open>process_request\<close>: the \<open>except Exception as e\<close> clause turns every exception of the
  body into a dictionary. \<open>err_str\<close> stands for \<open>str(e)\<close>.
\<close>

definition process_request :: "(pyerr \<Rightarrow> ustr) \<Rightarrow> ustr \<Rightarrow> pydict \<Rightarrow> pyval" where
  "process_request err_str now request =
     (case process_request_body now request of
        Inl e \<Rightarrow> PDict [(ascii ''error'', PStr (err_str e)), (ascii ''timestamp'', PStr now)]
      | Inr comprehensive_result \<Rightarrow> comprehensive_result)"

section \<open>NetworkAnalysis\<close>

text \<open>
  The NLTK functions and \<open>str.istitle\<close> are library code: they are parameters of the
  model, total on strings.
\<close>

record nlp =
  sent_tokenize :: "ustr \<Rightarrow> ustr list"
  word_tokenize :: "ustr \<Rightarrow> ustr list"
  pos_tag :: "ustr list \<Rightarrow> (ustr \<times> ustr) list"
  istitle :: "ustr \<Rightarrow> bool"

text \<open>\<open>word.istitle() and tag in ['NNP', 'NNPS']\<close>.\<close>

definition is_proper_noun :: "nlp \<Rightarrow> ustr \<times> ustr \<Rightarrow> bool" where
  "is_proper_noun lib t =
     (istitle lib (fst t) \<and> (snd t = ascii ''NNP'' \<or> snd t = ascii ''NNPS''))"

text \<open>
  The inner \<open>while j < len(tagged_tokens) and ...\<close> loop: it extends \<open>entity\<close> by a space
  and the next word as long as the next token is a proper noun, and returns the entity with
  the tokens from index \<open>j\<close> on.
\<close>

fun extend_entity :: "nlp \<Rightarrow> ustr \<Rightarrow> (ustr \<times> ustr) list \<Rightarrow> ustr \<times> (ustr \<times> ustr) list" where
  "extend_entity lib entity [] = (entity, [])"
| "extend_entity lib entity (t # ts) =
     (if is_proper_noun lib t then extend_entity lib (entity @ [32] @ fst t) ts
      else (entity, t # ts))"

lemma extend_entity_length:
  "length (snd (extend_entity lib entity ts)) \<le> length ts"
  by (induction ts arbitrary: entity) (auto intro: le_SucI)

text \<open>The outer \<open>while i < len(tagged_tokens)\<close> loop, on the tokens from index \<open>i\<close> on.\<close>

function entities_of :: "nlp \<Rightarrow> (ustr \<times> ustr) list \<Rightarrow> ustr list" where
  "entities_of lib [] = []"
| "entities_of lib (t # ts) =
     (if is_proper_noun lib t
      then fst (extend_entity lib (fst t) ts)
             # entities_of lib (snd (extend_entity lib (fst t) ts))
      else entities_of lib ts)"
  by pat_completeness auto
termination
  by (relation "measure (\<lambda>(lib, ts). length ts)")
     (auto simp: extend_entity_length le_imp_less_Suc)

text \<open>\<open>for i in range(len(entities)): for j in range(i + 1, len(entities))\<close>.\<close>

fun all_pairs :: "ustr list \<Rightarrow> (ustr \<times> ustr) list" where
  "all_pairs [] = []"
| "all_pairs (x # xs) = map (Pair x) xs @ all_pairs xs"

definition sentence_relationships :: "nlp \<Rightarrow> ustr \<Rightarrow> (ustr \<times> ustr) list" where
  "sentence_relationships lib sentence =
     (let tokens = word_tokenize lib sentence;
          tagged_tokens = pos_tag lib tokens;
          entities = entities_of lib tagged_tokens
      in if length entities \<ge> 2 then all_pairs entities else [])"

definition extract_relationships :: "nlp \<Rightarrow> ustr list \<Rightarrow> (ustr \<times> ustr) list" where
  "extract_relationships lib texts =
     concat (map (\<lambda>text. concat (map (sentence_relationships lib) (sent_tokenize lib text)))
                 texts)"

text \<open>
  A \<open>networkx.Graph\<close> as far as the code uses it: the nodes in insertion order, and the
  undirected edges in insertion order, each stored once with its \<open>weight\<close> attribute.
\<close>

record graph =
  nodes :: "ustr list"
  edges :: "((ustr \<times> ustr) \<times> nat) list"

definition empty_graph :: graph where
  "empty_graph = \<lparr>nodes = [], edges = []\<rparr>"

definition add_node :: "graph \<Rightarrow> ustr \<Rightarrow> graph" where
  "add_node g n = (if n \<in> set (nodes g) then g else g\<lparr>nodes := nodes g @ [n]\<rparr>)"

text \<open>An edge joins \<open>u\<close> and \<open>v\<close> whichever way round it was first added.\<close>

definition joins :: "ustr \<Rightarrow> ustr \<Rightarrow> (ustr \<times> ustr) \<times> nat \<Rightarrow> bool" where
  "joins u v e = (fst e = (u, v) \<or> fst e = (v, u))"

text \<open>
  \<open>add_edge(u, v, weight=w)\<close>: both end points become nodes; an existing edge between them
  has its weight replaced, otherwise the edge is appended.
\<close>

definition add_edge :: "graph \<Rightarrow> ustr \<Rightarrow> ustr \<Rightarrow> nat \<Rightarrow> graph" where
  "add_edge g u v w =
     (let g' = add_node (add_node g u) v
      in if \<exists>e \<in> set (edges g'). joins u v e
         then g'\<lparr>edges := map (\<lambda>e. if joins u v e then (fst e, w) else e) (edges g')\<rparr>
         else g'\<lparr>edges := edges g' @ [((u, v), w)]\<rparr>)"

text \<open>\<open>a > b\<close> on strings: lexicographic on code points, a proper prefix being smaller.\<close>

fun str_greater :: "ustr \<Rightarrow> ustr \<Rightarrow> bool" where
  "str_greater [] b = False"
| "str_greater (x # xs) [] = True"
| "str_greater (x # xs) (y # ys) = (x > y \<or> (x = y \<and> str_greater xs ys))"

text \<open>
  \<open>relationship_counts[(source, target)] += 1\<close> on a \<open>defaultdict(int)\<close>, which keeps
  the keys in the order they were first counted.
\<close>

fun count_pair :: "((ustr \<times> ustr) \<times> nat) list \<Rightarrow> ustr \<times> ustr \<Rightarrow> ((ustr \<times> ustr) \<times> nat) list" where
  "count_pair [] k = [(k, 1)]"
| "count_pair ((k', n) # rest) k =
     (if k' = k then (k', n + 1) # rest else (k', n) # count_pair rest k)"

text \<open>The body of the first loop of \<open>build_network\<close>.\<close>

definition count_relationship ::
  "((ustr \<times> ustr) \<times> nat) list \<Rightarrow> ustr \<times> ustr \<Rightarrow> ((ustr \<times> ustr) \<times> nat) list" where
  "count_relationship relationship_counts r =
     (case r of (source, target) \<Rightarrow>
        if source \<noteq> target then
          (if str_greater source target
           then count_pair relationship_counts (target, source)
           else count_pair relationship_counts (source, target))
        else relationship_counts)"

text \<open>The body of the second loop of \<open>build_network\<close>.\<close>

definition add_relationship :: "graph \<Rightarrow> (ustr \<times> ustr) \<times> nat \<Rightarrow> graph" where
  "add_relationship g e =
     (case e of ((source, target), weight) \<Rightarrow>
        add_edge (add_node (add_node g source) target) source target weight)"

record network_analysis =
  texts :: "ustr list"
  graph :: graph

text \<open>\<open>NetworkAnalysis.__init__\<close>.\<close>

definition network_analysis_init :: "ustr list \<Rightarrow> network_analysis" where
  "network_analysis_init ts = \<lparr>texts = ts, graph = empty_graph\<rparr>"

definition build_network :: "nlp \<Rightarrow> network_analysis \<Rightarrow> network_analysis" where
  "build_network lib na =
     (let relationships = extract_relationships lib (texts na);
          relationship_counts = foldl count_relationship [] relationships
      in na\<lparr>graph := foldl add_relationship (graph na) relationship_counts\<rparr>)"

text \<open>
  The networkx measures of \<open>analyze_network\<close> are library code, defined on every graph.
  The import of \<open>greedy_modularity_communities\<close> may fail (\<open>None\<close>), and the function
  itself may raise.
\<close>

record nxlib =
  density :: "graph \<Rightarrow> pyval"
  number_connected_components :: "graph \<Rightarrow> pyval"
  degree_centrality :: "graph \<Rightarrow> pyval"
  betweenness_centrality :: "graph \<Rightarrow> pyval"
  closeness_centrality :: "graph \<Rightarrow> pyval"
  greedy_modularity_communities :: "(graph \<Rightarrow> pyerr + ustr list list) option"
  connected_components :: "graph \<Rightarrow> ustr list list"

definition communities_value :: "ustr list list \<Rightarrow> pyval" where
  "communities_value cs = PList (map (\<lambda>c. PList (map PStr c)) cs)"

text \<open>\<open>detect_communities\<close>: only an ImportError is caught.\<close>

definition detect_communities :: "nxlib \<Rightarrow> graph \<Rightarrow> pyerr + pyval" where
  "detect_communities nx g =
     (case greedy_modularity_communities nx of
        None \<Rightarrow> Inr (communities_value (connected_components nx g))
      | Some greedy \<Rightarrow>
          (case greedy g of
             Inl e \<Rightarrow> Inl e
           | Inr communities \<Rightarrow> Inr (communities_value communities)))"

text \<open>\<open>if not self.graph.nodes(): self.build_network()\<close>, shared by the public methods.\<close>

definition ensure_built :: "nlp \<Rightarrow> network_analysis \<Rightarrow> network_analysis" where
  "ensure_built lib na = (if nodes (graph na) = [] then build_network lib na else na)"

definition analyze_network ::
  "nlp \<Rightarrow> nxlib \<Rightarrow> network_analysis \<Rightarrow> (pyerr + pyval) \<times> network_analysis" where
  "analyze_network lib nx na =
     (let na' = ensure_built lib na; g = graph na' in
      (case detect_communities nx g of
         Inl e \<Rightarrow> Inl e
       | Inr communities \<Rightarrow>
           Inr (PDict
             [(ascii ''nodes'', PInt (int (length (nodes g)))),
              (ascii ''edges'', PInt (int (length (edges g)))),
              (ascii ''density'', density nx g),
              (ascii ''connected_components'', number_connected_components nx g),
              (ascii ''centrality'',
                 PDict [(ascii ''degree'', degree_centrality nx g),
                        (ascii ''betweenness'', betweenness_centrality nx g),
                        (ascii ''closeness'', closeness_centrality nx g)]),
              (ascii ''communities'', communities)]),
       na'))"

text \<open>
  Notions used to state what \<open>build_network\<close> computes: a key of
  \<open>relationship_counts\<close> is \<open>normalized\<close> when its two names differ and are in
  ascending order; \<open>norm_pair\<close> is the swap the loop applies; \<open>tally\<close> reads a count,
  \<open>0\<close> for a missing key.
\<close>

definition normalized :: "ustr \<times> ustr \<Rightarrow> bool" where
  "normalized k = (fst k \<noteq> snd k \<and> \<not> str_greater (fst k) (snd k))"

definition norm_pair :: "ustr \<times> ustr \<Rightarrow> ustr \<times> ustr" where
  "norm_pair r = (if str_greater (fst r) (snd r) then (snd r, fst r) else r)"

definition tally :: "('k \<times> nat) list \<Rightarrow> 'k \<Rightarrow> nat" where
  "tally acc k = (case map_of acc k of None \<Rightarrow> 0 | Some n \<Rightarrow> n)"

text \<open>
  A small stand-in for the libraries, for evaluating the model on concrete texts: every
  character is a word, every word is tagged \<open>NNP\<close>, and a word is title-cased when it
  consists of capital ASCII letters.
\<close>

definition sample_nlp :: nlp where
  "sample_nlp =
     \<lparr>sent_tokenize = (\<lambda>text. [text]),
      word_tokenize = map (\<lambda>c. [c]),
      pos_tag = map (\<lambda>w. (w, ascii ''NNP'')),
      istitle = (\<lambda>w. w \<noteq> [] \<and> list_all (\<lambda>c. 65 \<le> c \<and> c \<le> 90) w)\<rparr>"

definition sample_nx :: nxlib where
  "sample_nx =
     \<lparr>density = (\<lambda>g. PNone),
      number_connected_components = (\<lambda>g. PNone),
      degree_centrality = (\<lambda>g. PNone),
      betweenness_centrality = (\<lambda>g. PNone),
      closeness_centrality = (\<lambda>g. PNone),
      greedy_modularity_communities = None,
      connected_components = (\<lambda>g. [nodes g])\<rparr>"

section \<open>BatchProcessor: splitting a text into chunks\<close>

text \<open>
  \<^verbatim>\<open>
  def _split_content(self, content, chunk_size=500000):
      chunks = []
      for i in range(0, len(content), chunk_size):
          chunks.append(content[i:i+chunk_size])
      return chunks
  \<close>
  \<open>range\<close> with step \<open>0\<close> raises ValueError, with a negative step it is empty. For a
  positive step the loop visits \<open>i = 0, chunk_size, 2 * chunk_size, ...\<close> while
  \<open>i < len(content)\<close>; \<open>split_loop\<close> is that loop with the index and the list built so
  far as arguments.
\<close>

function split_loop :: "ustr \<Rightarrow> nat \<Rightarrow> nat \<Rightarrow> ustr list \<Rightarrow> ustr list" where
  "split_loop content chunk_size i chunks =
     (if 0 < chunk_size \<and> i < length content
      then split_loop content chunk_size (i + chunk_size)
             (chunks @ [take chunk_size (drop i content)])
      else chunks)"
  by pat_completeness auto
termination
  by (relation "measure (\<lambda>(content, chunk_size, i, chunks). length content - i)") auto

declare split_loop.simps [simp del]

definition split_content :: "ustr \<Rightarrow> int \<Rightarrow> pyerr + ustr list" where
  "split_content content chunk_size =
     (if chunk_size = 0 then Inl ValueError
      else if chunk_size < 0 then Inr []
      else Inr (split_loop content (nat chunk_size) 0 []))"

section \<open>Files\<close>

text \<open>
  A path is the list of its components, so \<open>os.path.join(root, name)\<close> is
  \<open>root @ [name]\<close> and the parent of \<open>p\<close> is \<open>butlast p\<close>. The file system is the set
  of directories and the content of every regular file; a file either holds text, or
  bytes that are not valid UTF-8.
\<close>

type_synonym path = "ustr list"

datatype fcontent = Text ustr | Undecodable

record fs =
  directories :: "path set"
  file_at :: "path \<rightharpoonup> fcontent"

definition path_exists :: "fs \<Rightarrow> path \<Rightarrow> bool" where
  "path_exists st p = (p \<in> directories st \<or> file_at st p \<noteq> None)"

text \<open>\<open>open(p, 'r', encoding='utf-8').read()\<close>.\<close>

definition read_text :: "fs \<Rightarrow> path \<Rightarrow> pyerr + ustr" where
  "read_text st p =
     (case file_at st p of
        None \<Rightarrow> Inl (if p \<in> directories st then OSError else FileNotFoundError)
      | Some Undecodable \<Rightarrow> Inl UnicodeDecodeError
      | Some (Text s) \<Rightarrow> Inr s)"

text \<open>
  \<open>open(p, 'w', encoding='utf-8')\<close> followed by writing \<open>s\<close>: it needs the parent to be
  a directory and \<open>p\<close> not to be one, and replaces the content of \<open>p\<close>. Opening a
  directory raises IsADirectoryError and a regular file among the ancestors raises
  NotADirectoryError, both kinds of \<open>OSError\<close>; a missing parent raises
  FileNotFoundError.
\<close>

definition write_text :: "fs \<Rightarrow> path \<Rightarrow> ustr \<Rightarrow> pyerr + fs" where
  "write_text st p s =
     (if p = [] \<or> p \<in> directories st then Inl OSError
      else if butlast p \<in> directories st then
        Inr (st\<lparr>file_at := (file_at st)(p \<mapsto> Text s)\<rparr>)
      else if \<exists>q \<in> set (prefixes (butlast p)). file_at st q \<noteq> None then Inl OSError
      else Inl FileNotFoundError)"

text \<open>
  \<open>os.makedirs(p, exist_ok=True)\<close>: every missing ancestor is created; it fails when a
  regular file is in the way.
\<close>

definition makedirs :: "fs \<Rightarrow> path \<Rightarrow> pyerr + fs" where
  "makedirs st p =
     (if \<exists>q \<in> set (prefixes p). file_at st q \<noteq> None then Inl OSError
      else Inr (st\<lparr>directories := directories st \<union> set (prefixes p)\<rparr>))"

text \<open>\<open>s.endswith(ext)\<close>.\<close>

definition endswith :: "ustr \<Rightarrow> ustr \<Rightarrow> bool" where
  "endswith s ext = (length ext \<le> length s \<and> drop (length s - length ext) s = ext)"

text \<open>
  \<open>os.path.splitext(name)[0]\<close> for a name without a separator, as \<open>os.walk\<close> yields
  them: the name up to its last dot, unless only dots precede that dot.
\<close>

definition splitext_root :: "ustr \<Rightarrow> ustr" where
  "splitext_root name =
     (if 46 \<in> set name then
        (let dot_index = length name - 1 - length (takeWhile (\<lambda>c. c \<noteq> 46) (rev name))
         in if \<exists>c \<in> set (take dot_index name). c \<noteq> 46 then take dot_index name else name)
      else name)"

text \<open>\<open>str(n)\<close> for a natural number.\<close>

fun decimal :: "nat \<Rightarrow> ustr" where
  "decimal n = (if n < 10 then [48 + n] else decimal (n div 10) @ [48 + n mod 10])"

declare decimal.simps [simp del]

section \<open>BatchProcessor\<close>

text \<open>
  What the surroundings supply to a run: \<open>str(e)\<close>, \<open>json.dumps\<close> with the options the
  code passes, the text of a path, and the readings of the clock (for the requests made for
  a file, numbered from 0, and at the start and the end of the run).
\<close>

record batch_env =
  err_str :: "pyerr \<Rightarrow> ustr"
  dumps :: "pyval \<Rightarrow> ustr"
  path_str :: "path \<Rightarrow> ustr"
  request_clock :: "path \<Rightarrow> nat \<Rightarrow> ustr"
  start_clock :: ustr
  end_clock :: ustr

text \<open>
  \<open>process_file\<close>. \<open>now i\<close> is the clock reading of the \<open>i\<close>-th request it makes. A
  content of more than 1000000 characters is processed in chunks of 500000.
\<close>

definition process_file :: "(pyerr \<Rightarrow> ustr) \<Rightarrow> (nat \<Rightarrow> ustr) \<Rightarrow> ustr \<Rightarrow> ustr \<Rightarrow> pyerr + pyval" where
  "process_file estr now content file_name =
     (if length content > 1000000 then
        (case split_content content 500000 of
           Inl e \<Rightarrow> Inl e
         | Inr chunks \<Rightarrow>
             Inr (PDict
               [(ascii ''file_name'', PStr file_name),
                (ascii ''file_size'', PInt (int (length content))),
                (ascii ''is_large_file'', PBool True),
                (ascii ''chunks_processed'', PInt (int (length chunks))),
                (ascii ''results'',
                   PList (map (\<lambda>(i, chunk).
                       PDict [(ascii ''chunk'', PInt (int i + 1)),
                              (ascii ''result'',
                                 process_request estr (now i)
                                   [(ascii ''description'',
                                       PStr ([0x5904, 0x7406, 0x6587, 0x4EF6, 0x20] @ file_name
                                             @ [0x20, 0x7684, 0x7B2C, 0x20] @ decimal (i + 1)
                                             @ [0x20, 0x90E8, 0x5206])),
                                    (ascii ''text'', PStr chunk)])])
                     (enumerate 0 chunks)))]))
      else
        Inr (PDict
          [(ascii ''file_name'', PStr file_name),
           (ascii ''file_size'', PInt (int (length content))),
           (ascii ''is_large_file'', PBool False),
           (ascii ''result'',
              process_request estr (now 0)
                [(ascii ''description'',
                    PStr ([0x5904, 0x7406, 0x6587, 0x4EF6, 0x20] @ file_name)),
                 (ascii ''text'', PStr content)])]))"

text \<open>The \<open>stats\<close> dictionary of \<open>process_folder\<close>; its keys never change.\<close>

record stats =
  total_files :: nat
  processed_files :: nat
  failed_files :: nat
  start_time :: ustr
  end_time :: "ustr option"
  files :: "pyval list"

definition stats_dict :: "stats \<Rightarrow> pyval" where
  "stats_dict s =
     PDict [(ascii ''total_files'', PInt (int (total_files s))),
            (ascii ''processed_files'', PInt (int (processed_files s))),
            (ascii ''failed_files'', PInt (int (failed_files s))),
            (ascii ''start_time'', PStr (start_time s)),
            (ascii ''end_time'', (case end_time s of None \<Rightarrow> PNone | Some t \<Rightarrow> PStr t)),
            (ascii ''files'', PList (files s))]"

text \<open>The entries appended to \<open>stats["files"]\<close>.\<close>

definition success_entry :: "batch_env \<Rightarrow> ustr \<Rightarrow> path \<Rightarrow> pyval" where
  "success_entry env file_name output_file =
     PDict [(ascii ''file_name'', PStr file_name),
            (ascii ''status'', PStr (ascii ''success'')),
            (ascii ''output_file'', PStr (path_str env output_file))]"

definition failure_entry :: "batch_env \<Rightarrow> ustr \<Rightarrow> pyerr \<Rightarrow> pyval" where
  "failure_entry env file_name e =
     PDict [(ascii ''file_name'', PStr file_name),
            (ascii ''status'', PStr (ascii ''failed'')),
            (ascii ''error'', PStr (err_str env e))]"

text \<open>The end of the \<open>try\<close> block, and the \<open>except\<close> clause.\<close>

definition record_success :: "batch_env \<Rightarrow> ustr \<Rightarrow> path \<Rightarrow> stats \<Rightarrow> stats" where
  "record_success env file_name output_file s =
     s\<lparr>processed_files := processed_files s + 1,
       files := files s @ [success_entry env file_name output_file]\<rparr>"

definition record_failure :: "batch_env \<Rightarrow> ustr \<Rightarrow> pyerr \<Rightarrow> stats \<Rightarrow> stats" where
  "record_failure env file_name e s =
     s\<lparr>failed_files := failed_files s + 1,
       files := files s @ [failure_entry env file_name e]\<rparr>"

text \<open>\<open>any(file_name.endswith(ext) for ext in file_extensions)\<close>.\<close>

definition has_extension :: "ustr list \<Rightarrow> ustr \<Rightarrow> bool" where
  "has_extension file_extensions file_name =
     (\<exists>ext \<in> set file_extensions. endswith file_name ext)"

definition result_path :: "path \<Rightarrow> ustr \<Rightarrow> path" where
  "result_path output_folder file_name =
     output_folder @ [splitext_root file_name @ ascii ''_result.json'']"

text \<open>
  The body of \<open>for file_name in files\<close>: a name with none of the extensions is passed
  over; otherwise the file is counted, read, processed and its result written, and any
  exception on the way is recorded as a failure.
\<close>

definition process_one ::
  "batch_env \<Rightarrow> ustr list \<Rightarrow> path \<Rightarrow> path \<Rightarrow> fs \<times> stats \<Rightarrow> ustr \<Rightarrow> fs \<times> stats" where
  "process_one env file_extensions output_folder root_dir acc file_name =
     (case acc of (st, s) \<Rightarrow>
        if has_extension file_extensions file_name then
          (let s1 = s\<lparr>total_files := total_files s + 1\<rparr>;
               file_path = root_dir @ [file_name]
           in case read_text st file_path of
                Inl e \<Rightarrow> (st, record_failure env file_name e s1)
              | Inr content \<Rightarrow>
                  (case process_file (err_str env) (request_clock env file_path)
                          content file_name of
                     Inl e \<Rightarrow> (st, record_failure env file_name e s1)
                   | Inr result \<Rightarrow>
                       (let output_file = result_path output_folder file_name
                        in case write_text st output_file (dumps env result) of
                             Inl e \<Rightarrow> (st, record_failure env file_name e s1)
                           | Inr st' \<Rightarrow>
                               (st', record_success env file_name output_file s1))))
        else (st, s))"

text \<open>
  \<open>for root, dirs, files in os.walk(input_folder)\<close>: the triples \<open>os.walk\<close> yields during
  the run are given as the list \<open>walk\<close>.
\<close>

definition walk_loop ::
  "batch_env \<Rightarrow> ustr list \<Rightarrow> path \<Rightarrow> (path \<times> ustr list \<times> ustr list) list
    \<Rightarrow> fs \<times> stats \<Rightarrow> fs \<times> stats" where
  "walk_loop env file_extensions output_folder walk acc =
     foldl (\<lambda>acc (root_dir, subdirs, names).
              foldl (process_one env file_extensions output_folder root_dir) acc names)
       acc walk"

definition initial_stats :: "ustr \<Rightarrow> stats" where
  "initial_stats t =
     \<lparr>total_files = 0, processed_files = 0, failed_files = 0, start_time = t,
      end_time = None, files = []\<rparr>"

definition stats_path :: "path \<Rightarrow> path" where
  "stats_path output_folder = output_folder @ [ascii ''batch_processing_stats.json'']"

text \<open>The default of the parameter \<open>file_extensions\<close>.\<close>

definition default_extensions :: "ustr list" where
  "default_extensions = [ascii ''.txt'', ascii ''.md'', ascii ''.csv'']"

text \<open>
  \<open>process_folder\<close> returns a dictionary or raises, and leaves a file system behind in
  either case. Only the per-file work is inside a \<open>try\<close>: an exception of
  \<open>os.makedirs\<close> or of writing the statistics reaches the caller.
\<close>

definition process_folder ::
  "batch_env \<Rightarrow> path \<Rightarrow> path \<Rightarrow> ustr list \<Rightarrow> (path \<times> ustr list \<times> ustr list) list
    \<Rightarrow> fs \<Rightarrow> (pyerr + pyval) \<times> fs" where
  "process_folder env input_folder output_folder file_extensions walk st =
     (if \<not> path_exists st input_folder then
        (Inr (PDict [(ascii ''error'',
                      PStr ([0x8F93, 0x5165, 0x6587, 0x4EF6, 0x5939, 0x4E0D, 0x5B58, 0x5728, 0x3A, 0x20]
                            @ path_str env input_folder))]),
         st)
      else
        (case (if \<not> path_exists st output_folder then makedirs st output_folder else Inr st) of
           Inl e \<Rightarrow> (Inl e, st)
         | Inr st1 \<Rightarrow>
             (case walk_loop env file_extensions output_folder walk
                     (st1, initial_stats (start_clock env)) of
                (st2, s2) \<Rightarrow>
                  (let s3 = s2\<lparr>end_time := Some (end_clock env)\<rparr>
                   in case write_text st2 (stats_path output_folder)
                             (dumps env (stats_dict s3)) of
                        Inl e \<Rightarrow> (Inl e, st2)
                      | Inr st3 \<Rightarrow> (Inr (stats_dict s3), st3)))))"





text \<open>A stand-in environment and a small file system for concrete evaluations.\<close>

definition sample_env :: batch_env where
  "sample_env =
     \<lparr>err_str = (\<lambda>e. ascii ''error''),
      dumps = (\<lambda>v. ascii ''json''),
      path_str = concat,
      request_clock = (\<lambda>p i. ascii ''now''),
      start_clock = ascii ''start'',
      end_clock = ascii ''end''\<rparr>"

definition sample_fs :: fs where
  "sample_fs =
     \<lparr>directories = {[], [ascii ''in'']},
      file_at = [[ascii ''in'', ascii ''a.txt''] \<mapsto> Text (ascii ''hi''),
                 [ascii ''in'', ascii ''b.txt''] \<mapsto> Undecodable]\<rparr>"

definition sample_walk :: "(path \<times> ustr list \<times> ustr list) list" where
  "sample_walk = [([ascii ''in''], [], [ascii ''a.txt'', ascii ''b.txt'', ascii ''c.png''])]"

text \<open>The loop of \<open>process_folder\<close> over the files of a walk, one after the other.\<close>

definition run_files ::
  "batch_env \<Rightarrow> ustr list \<Rightarrow> path \<Rightarrow> fs \<times> stats \<Rightarrow> (path \<times> ustr) list \<Rightarrow> fs \<times> stats" where
  "run_files env exts out acc rns
   = foldl (\<lambda>acc rn. process_one env exts out (fst rn) acc (snd rn)) acc rns"





section \<open>NetworkAnalysis.export_network\<close>

text \<open>The three networkx writers are library code that changes the file system or raises.\<close>

record nx_writers =
  write_graphml :: "graph \<Rightarrow> path \<Rightarrow> fs \<Rightarrow> pyerr + fs"
  write_gexf :: "graph \<Rightarrow> path \<Rightarrow> fs \<Rightarrow> pyerr + fs"
  write_gml :: "graph \<Rightarrow> path \<Rightarrow> fs \<Rightarrow> pyerr + fs"

text \<open>
  \<open>G.edges(data=True)\<close> goes through the nodes in insertion order and, for each node
  \<open>u\<close>, through the edges at \<open>u\<close> in the order they were added, leaving out an edge whose
  other end was visited before \<open>u\<close>; it reports the edge as \<open>(u, other end, data)\<close>.
\<close>

definition other_end :: "ustr \<Rightarrow> (ustr \<times> ustr) \<times> nat \<Rightarrow> ustr" where
  "other_end u e = (if fst (fst e) = u then snd (fst e) else fst (fst e))"

definition edges_at :: "graph \<Rightarrow> ustr \<Rightarrow> ((ustr \<times> ustr) \<times> nat) list" where
  "edges_at g u =
     map (\<lambda>e. ((u, other_end u e), snd e))
       (filter (\<lambda>e. (fst (fst e) = u \<or> snd (fst e) = u)
                     \<and> other_end u e \<notin> set (takeWhile (\<lambda>x. x \<noteq> u) (nodes g)))
               (edges g))"

definition edges_view :: "graph \<Rightarrow> ((ustr \<times> ustr) \<times> nat) list" where
  "edges_view g = concat (map (edges_at g) (nodes g))"

text \<open>The dictionary of the \<open>json\<close> branch.\<close>

definition graph_data :: "graph \<Rightarrow> pyval" where
  "graph_data g =
     PDict [(ascii ''nodes'', PList (map (\<lambda>node. PDict [(ascii ''id'', PStr node)]) (nodes g))),
            (ascii ''links'',
               PList (map (\<lambda>e. PDict [(ascii ''source'', PStr (fst (fst e))),
                                        (ascii ''target'', PStr (snd (fst e))),
                                        (ascii ''weight'', PInt (int (snd e)))])
                        (edges_view g)))]"

text \<open>
  \<open>export_network(file_path, format)\<close> has no \<open>try\<close>: what a writer raises, and the
  \<open>ValueError\<close> of the last branch, reach the caller. The result is the exception or
  \<open>None\<close>, the instance and the file system.
\<close>

definition export_network ::
  "nlp \<Rightarrow> nx_writers \<Rightarrow> (pyval \<Rightarrow> ustr) \<Rightarrow> network_analysis \<Rightarrow> path \<Rightarrow> ustr \<Rightarrow> fs
    \<Rightarrow> (pyerr + unit) \<times> network_analysis \<times> fs" where
  "export_network lib wr json_dumps na file_path fmt st =
     (let na' = ensure_built lib na;
          finish = (\<lambda>r. case r of Inl e \<Rightarrow> (Inl e, na', st) | Inr st' \<Rightarrow> (Inr (), na', st'))
      in if fmt = ascii ''graphml'' then finish (write_graphml wr (graph na') file_path st)
         else if fmt = ascii ''gexf'' then finish (write_gexf wr (graph na') file_path st)
         else if fmt = ascii ''gml'' then finish (write_gml wr (graph na') file_path st)
         else if fmt = ascii ''json'' then
           finish (write_text st file_path (json_dumps (graph_data (graph na'))))
         else (Inl ValueError, na', st))"

definition sample_writers :: nx_writers where
  "sample_writers =
     \<lparr>write_graphml = (\<lambda>g p st. Inr st), write_gexf = (\<lambda>g p st. Inr st),
      write_gml = (\<lambda>g p st. Inr st)\<rparr>"

section \<open>ImageAnalyzer\<close>

text \<open>
  OpenCV, NumPy and scikit-image are library code over an image type \<open>'img\<close>. Where the
  source guards a library call with \<open>try\<close> (in \<open>load_image\<close> and in
  \<open>_analyze_texture\<close>) the call may raise in the model; elsewhere the calls are taken to
  be defined on every loaded image. \<open>mean_std_dev img c\<close> is \<open>cv2.meanStdDev\<close> on channel
  \<open>c\<close>. The floating-point arithmetic of \<open>_analyze_edge_density\<close> and
  \<open>_analyze_composition\<close> is not modelled: their values are parameters.
\<close>

record 'img cv2lib =
  imread :: "path \<Rightarrow> 'img option"
  cvt_bgr2rgb :: "'img \<Rightarrow> pyerr + 'img"
  cvt_rgb2gray :: "'img \<Rightarrow> pyerr + 'img"
  cvt_rgb2lab :: "'img \<Rightarrow> 'img"
  mean_std_dev :: "'img \<Rightarrow> nat \<Rightarrow> rat \<times> rat"
  edge_density :: "'img \<Rightarrow> pyval"
  glcm_properties :: "'img \<Rightarrow> pyerr + rat \<times> rat \<times> rat \<times> rat \<times> rat"
  composition :: "'img \<Rightarrow> pyval"
  gray_mean :: "'img \<Rightarrow> rat"
  gray_std :: "'img \<Rightarrow> rat"
  shannon_entropy :: "'img \<Rightarrow> rat"

record 'img image_analyzer =
  image_path :: path
  image :: "'img option"
  gray_image :: "'img option"

text \<open>
  \<open>load_image\<close>: each assignment made before an exception stays, so after a failed
  conversion \<open>self.image\<close> holds the last image that was assigned.
\<close>

definition load_image :: "'img cv2lib \<Rightarrow> 'img image_analyzer \<Rightarrow> 'img image_analyzer" where
  "load_image cv ia =
     (case imread cv (image_path ia) of
        None \<Rightarrow> ia\<lparr>image := None\<rparr>
      | Some bgr \<Rightarrow>
          (case cvt_bgr2rgb cv bgr of
             Inl e \<Rightarrow> ia\<lparr>image := Some bgr\<rparr>
           | Inr rgb \<Rightarrow>
               (case cvt_rgb2gray cv rgb of
                  Inl e \<Rightarrow> ia\<lparr>image := Some rgb\<rparr>
                | Inr gray \<Rightarrow> ia\<lparr>image := Some rgb, gray_image := Some gray\<rparr>)))"

text \<open>\<open>ImageAnalyzer.__init__\<close>.\<close>

definition image_analyzer_init :: "'img cv2lib \<Rightarrow> path \<Rightarrow> 'img image_analyzer" where
  "image_analyzer_init cv p =
     load_image cv \<lparr>image_path = p, image = None, gray_image = None\<rparr>"

definition analyze_color_distribution :: "'img cv2lib \<Rightarrow> 'img \<Rightarrow> pyval" where
  "analyze_color_distribution cv img =
     (let (mean_r, std_r) = mean_std_dev cv img 0;
          (mean_g, std_g) = mean_std_dev cv img 1;
          (mean_b, std_b) = mean_std_dev cv img 2;
          lab_image = cvt_rgb2lab cv img;
          (mean_l, std_l) = mean_std_dev cv lab_image 0;
          (mean_a, std_a) = mean_std_dev cv lab_image 1;
          (mean_b_lab, std_b_lab) = mean_std_dev cv lab_image 2
      in PDict [(ascii ''mean_r'', PFloat mean_r),
                (ascii ''mean_g'', PFloat mean_g),
                (ascii ''mean_b'', PFloat mean_b),
                (ascii ''std_r'', PFloat std_r),
                (ascii ''std_g'', PFloat std_g),
                (ascii ''std_b'', PFloat std_b),
                (ascii ''mean_l'', PFloat mean_l),
                (ascii ''mean_a'', PFloat mean_a),
                (ascii ''mean_b_lab'', PFloat mean_b_lab),
                (ascii ''std_l'', PFloat std_l),
                (ascii ''std_a'', PFloat std_a),
                (ascii ''std_b_lab'', PFloat std_b_lab)])"

text \<open>\<open>_analyze_texture\<close>: any exception of the library gives the all-zero dictionary.\<close>

definition analyze_texture :: "'img cv2lib \<Rightarrow> 'img \<Rightarrow> pyval" where
  "analyze_texture cv gray =
     (case glcm_properties cv gray of
        Inl e \<Rightarrow>
          PDict [(ascii ''contrast'', PFloat 0), (ascii ''dissimilarity'', PFloat 0),
                 (ascii ''homogeneity'', PFloat 0), (ascii ''energy'', PFloat 0),
                 (ascii ''correlation'', PFloat 0)]
      | Inr (contrast, dissimilarity, homogeneity, energy, correlation) \<Rightarrow>
          PDict [(ascii ''contrast'', PFloat contrast),
                 (ascii ''dissimilarity'', PFloat dissimilarity),
                 (ascii ''homogeneity'', PFloat homogeneity),
                 (ascii ''energy'', PFloat energy),
                 (ascii ''correlation'', PFloat correlation)])"

text \<open>
  \<open>analyze\<close>. With an image but no gray image (a conversion failed in \<open>load_image\<close>) the
  first call on \<open>self.gray_image\<close> raises.
\<close>

definition analyze :: "'img cv2lib \<Rightarrow> 'img image_analyzer \<Rightarrow> pyerr + pyval" where
  "analyze cv ia =
     (case image ia of
        None \<Rightarrow> Inr (PDict [(ascii ''error'', PStr [0x56FE, 0x50CF, 0x672A, 0x52A0, 0x8F7D])])
      | Some img \<Rightarrow>
          (case gray_image ia of
             None \<Rightarrow> Inl (LibraryError 0)
           | Some gray \<Rightarrow>
               Inr (PDict
                 [(ascii ''color_distribution'', analyze_color_distribution cv img),
                  (ascii ''edge_density'', edge_density cv gray),
                  (ascii ''texture_features'', analyze_texture cv gray),
                  (ascii ''composition'', composition cv gray),
                  (ascii ''brightness'', PFloat (gray_mean cv gray / 255)),
                  (ascii ''contrast'', PFloat (gray_std cv gray / 255)),
                  (ascii ''entropy'', PFloat (shannon_entropy cv gray))])))"

text \<open>The twelve keys of the colour distribution, in the order of the dictionary literal.\<close>

definition color_distribution_keys :: "ustr list" where
  "color_distribution_keys =
     [ascii ''mean_r'', ascii ''mean_g'', ascii ''mean_b'',
      ascii ''std_r'', ascii ''std_g'', ascii ''std_b'',
      ascii ''mean_l'', ascii ''mean_a'', ascii ''mean_b_lab'',
      ascii ''std_l'', ascii ''std_a'', ascii ''std_b_lab'']"

text \<open>A stand-in library whose images are numbers: the path \<open>[]\<close> cannot be read.\<close>

definition sample_cv :: "nat cv2lib" where
  "sample_cv =
     \<lparr>imread = (\<lambda>p. if p = [] then None else Some 0),
      cvt_bgr2rgb = (\<lambda>i. Inr (i + 1)),
      cvt_rgb2gray = (\<lambda>i. Inr (i + 2)),
      cvt_rgb2lab = (\<lambda>i. i + 3),
      mean_std_dev = (\<lambda>i c. (rat_of_nat (i + c), 1)),
      edge_density = (\<lambda>i. PFloat 0),
      glcm_properties = (\<lambda>i. Inl (LibraryError 1)),
      composition = (\<lambda>i. PDict []),
      gray_mean = (\<lambda>i. 0),
      gray_std = (\<lambda>i. 0),
      shannon_entropy = (\<lambda>i. 0)\<rparr>"

section \<open>CulturalAnalyzer\<close>

text \<open>
  The DataFrame is a value of a type \<open>'df\<close> of the pandas library. The model keeps the
  guards of every method as the source has them; the pandas, scikit-learn and SciPy
  pipeline that follows the guards of a method is one parameter, which may raise.
\<close>

record 'df pandas =
  df_empty :: "'df \<Rightarrow> bool"
  df_columns :: "'df \<Rightarrow> ustr list"
  numeric_columns :: "'df \<Rightarrow> ustr list"
  dropna_empty :: "'df \<Rightarrow> ustr list \<Rightarrow> bool"
  to_datetime :: "'df \<Rightarrow> ustr \<Rightarrow> pyerr + 'df"
  describe_pipeline :: "'df \<Rightarrow> pyerr + pyval"
  correlation_pipeline :: "'df \<Rightarrow> ustr list \<Rightarrow> pyerr + pyval"
  cluster_pipeline :: "'df \<Rightarrow> ustr list \<Rightarrow> int \<Rightarrow> pyerr + pyval"
  time_series_pipeline :: "'df \<Rightarrow> ustr \<Rightarrow> ustr \<Rightarrow> pyerr + pyval"
  geographic_pipeline :: "'df \<Rightarrow> ustr \<Rightarrow> ustr \<Rightarrow> pyerr + pydict"
  value_stats_pipeline :: "'df \<Rightarrow> ustr \<Rightarrow> pyerr + pyval"
  sentiment_pipeline :: "'df \<Rightarrow> ustr \<Rightarrow> pyerr + pyval"
  graph_pipeline :: "'df \<Rightarrow> ustr \<Rightarrow> ustr \<Rightarrow> pyerr + graph"

definition error_dict :: "ustr \<Rightarrow> pyval" where
  "error_dict msg = PDict [(ascii ''error'', PStr msg)]"

text \<open>The messages of the guards, as code points.\<close>

definition msg_empty :: ustr where
  "msg_empty = [0x6570, 0x636E, 0x4E3A, 0x7A7A]"

definition msg_too_few_numeric :: ustr where
  "msg_too_few_numeric = [0x6570, 0x503C, 0x578B, 0x5217, 0x4E0D, 0x8DB3]"

definition msg_empty_after_dropna :: ustr where
  "msg_empty_after_dropna = [0x5904, 0x7406, 0x7F3A, 0x5931, 0x503C, 0x540E, 0x6570, 0x636E, 0x4E3A, 0x7A7A]"

definition msg_no_column :: ustr where
  "msg_no_column = [0x5217, 0x540D, 0x4E0D, 0x5B58, 0x5728]"

definition msg_datetime_failed :: ustr where
  "msg_datetime_failed = [0x65F6, 0x95F4, 0x5217, 0x8F6C, 0x6362, 0x5931, 0x8D25, 0x3A, 0x20]"

definition msg_no_coordinates :: ustr where
  "msg_no_coordinates = [0x7ECF, 0x7EAC, 0x5EA6, 0x5217, 0x4E0D, 0x5B58, 0x5728]"

definition msg_no_text_column :: ustr where
  "msg_no_text_column = [0x6587, 0x672C, 0x5217, 0x4E0D, 0x5B58, 0x5728]"

definition descriptive_statistics :: "'df pandas \<Rightarrow> 'df \<Rightarrow> pyerr + pyval" where
  "descriptive_statistics pd df =
     (if df_empty pd df then Inr (error_dict msg_empty)
      else describe_pipeline pd df)"

definition correlation_analysis :: "'df pandas \<Rightarrow> 'df \<Rightarrow> pyerr + pyval" where
  "correlation_analysis pd df =
     (if df_empty pd df then Inr (error_dict msg_empty)
      else let numeric_cols = numeric_columns pd df
           in if length numeric_cols < 2 then Inr (error_dict msg_too_few_numeric)
              else correlation_pipeline pd df numeric_cols)"

definition cluster_analysis :: "'df pandas \<Rightarrow> 'df \<Rightarrow> int \<Rightarrow> pyerr + pyval" where
  "cluster_analysis pd df n_clusters =
     (if df_empty pd df then Inr (error_dict msg_empty)
      else let numeric_cols = numeric_columns pd df
           in if length numeric_cols < 2 then Inr (error_dict msg_too_few_numeric)
              else if dropna_empty pd df numeric_cols then Inr (error_dict msg_empty_after_dropna)
              else cluster_pipeline pd df numeric_cols n_clusters)"

text \<open>
  \<open>time_series_analysis\<close> stores the converted time column in \<open>self.data\<close>, so it returns
  the DataFrame as well.
\<close>

definition time_series_analysis ::
  "'df pandas \<Rightarrow> (pyerr \<Rightarrow> ustr) \<Rightarrow> 'df \<Rightarrow> ustr \<Rightarrow> ustr \<Rightarrow> (pyerr + pyval) \<times> 'df" where
  "time_series_analysis pd estr df time_col value_col =
     (if df_empty pd df then (Inr (error_dict msg_empty), df)
      else if time_col \<notin> set (df_columns pd df) \<or> value_col \<notin> set (df_columns pd df)
        then (Inr (error_dict msg_no_column), df)
      else (case to_datetime pd df time_col of
              Inl e \<Rightarrow> (Inr (error_dict (msg_datetime_failed @ estr e)), df)
            | Inr df' \<Rightarrow> (time_series_pipeline pd df' time_col value_col, df')))"

text \<open>
  \<open>geographic_analysis(lat_col, lon_col, value_col=None)\<close>: the optional value column
  adds the entry \<open>value_stats\<close> only when it is given, non-empty and present.
\<close>

definition geographic_analysis ::
  "'df pandas \<Rightarrow> 'df \<Rightarrow> ustr \<Rightarrow> ustr \<Rightarrow> ustr option \<Rightarrow> pyerr + pyval" where
  "geographic_analysis pd df lat_col lon_col value_col =
     (if df_empty pd df then Inr (error_dict msg_empty)
      else if lat_col \<notin> set (df_columns pd df) \<or> lon_col \<notin> set (df_columns pd df)
        then Inr (error_dict msg_no_coordinates)
      else (case geographic_pipeline pd df lat_col lon_col of
              Inl e \<Rightarrow> Inl e
            | Inr geo_stats \<Rightarrow>
                (case value_col of
                   None \<Rightarrow> Inr (PDict geo_stats)
                 | Some vc \<Rightarrow>
                     if vc \<noteq> [] \<and> vc \<in> set (df_columns pd df) then
                       (case value_stats_pipeline pd df vc of
                          Inl e \<Rightarrow> Inl e
                        | Inr vs \<Rightarrow> Inr (PDict (geo_stats @ [(ascii ''value_stats'', vs)])))
                     else Inr (PDict geo_stats))))"

definition sentiment_analysis :: "'df pandas \<Rightarrow> 'df \<Rightarrow> ustr \<Rightarrow> pyerr + pyval" where
  "sentiment_analysis pd df text_col =
     (if df_empty pd df then Inr (error_dict msg_empty)
      else if text_col \<notin> set (df_columns pd df) then Inr (error_dict msg_no_text_column)
      else sentiment_pipeline pd df text_col)"

text \<open>
  \<open>network_analysis\<close> returns a graph, or \<open>None\<close> from both of its guards: the result is
  a \<open>graph option\<close>.
\<close>

definition network_analysis :: "'df pandas \<Rightarrow> 'df \<Rightarrow> ustr \<Rightarrow> ustr \<Rightarrow> pyerr + graph option" where
  "network_analysis pd df node_col edge_col =
     (if df_empty pd df then Inr None
      else if node_col \<notin> set (df_columns pd df) \<or> edge_col \<notin> set (df_columns pd df)
        then Inr None
      else (case graph_pipeline pd df node_col edge_col of
              Inl e \<Rightarrow> Inl e
            | Inr g \<Rightarrow> Inr (Some g)))"

text \<open>
  A stand-in pandas whose DataFrames are a list of column names and a number of rows.
\<close>

definition sample_pd :: "(ustr list \<times> nat) pandas" where
  "sample_pd =
     \<lparr>df_empty = (\<lambda>df. fst df = [] \<or> snd df = 0),
      df_columns = fst,
      numeric_columns = fst,
      dropna_empty = (\<lambda>df cols. False),
      to_datetime = (\<lambda>df c. Inr df),
      describe_pipeline = (\<lambda>df. Inr (PDict [])),
      correlation_pipeline = (\<lambda>df cols. Inr (PDict [])),
      cluster_pipeline = (\<lambda>df cols n. Inr (PDict [])),
      time_series_pipeline = (\<lambda>df t v. Inr (PDict [])),
      geographic_pipeline = (\<lambda>df la lo. Inr [(ascii ''points_count'', PInt (int (snd df)))]),
      value_stats_pipeline = (\<lambda>df v. Inr (PDict [])),
      sentiment_pipeline = (\<lambda>df t. Inr (PDict [])),
      graph_pipeline = (\<lambda>df n e. Inr empty_graph)\<rparr>"

section \<open>Properties of the chunking\<close>

lemma split_loop_stop:
  "\<not> (0 < n \<and> i < length c) \<Longrightarrow> split_loop c n i acc = acc"
  by (subst split_loop.simps) auto

lemma split_loop_step:
  "0 < n \<Longrightarrow> i < length c \<Longrightarrow>
     split_loop c n i acc = split_loop c n (i + n) (acc @ [take n (drop i c)])"
  by (subst split_loop.simps) auto

lemma split_loop_concat:
  "0 < n \<Longrightarrow> concat (split_loop c n i acc) = concat acc @ drop i c"
proof (induction c n i acc rule: split_loop.induct)
  case (1 content chunk_size i chunks)
  show ?case
  proof (cases "i < length content")
    case True
    let ?x = "take chunk_size (drop i content)"
    have ih: "concat (split_loop content chunk_size (i + chunk_size) (chunks @ [?x]))
              = concat (chunks @ [?x]) @ drop (i + chunk_size) content"
      using "1.IH" True "1.prems" by blast
    have "drop (i + chunk_size) content = drop chunk_size (drop i content)"
      by (simp add: add.commute)
    then have "concat (chunks @ [?x]) @ drop (i + chunk_size) content
               = concat chunks @ (?x @ drop chunk_size (drop i content))"
      by simp
    also have "\<dots> = concat chunks @ drop i content"
      by (simp only: append_take_drop_id)
    finally show ?thesis
      using ih split_loop_step [OF "1.prems" True, of chunks] by simp
  next
    case False
    then show ?thesis by (simp add: split_loop_stop)
  qed
qed

lemma split_loop_full:
  "0 < n \<Longrightarrow> \<forall>x \<in> set acc. length x = n \<Longrightarrow>
     \<forall>x \<in> set (butlast (split_loop c n i acc)). length x = n"
proof (induction c n i acc rule: split_loop.induct)
  case (1 content chunk_size i chunks)
  note pos = "1.prems"(1) and acc = "1.prems"(2)
  show ?case
  proof (cases "i < length content")
    case False
    then have "split_loop content chunk_size i chunks = chunks"
      by (simp add: split_loop_stop)
    then show ?thesis using acc by (auto dest: in_set_butlastD)
  next
    case True
    let ?x = "take chunk_size (drop i content)"
    have step: "split_loop content chunk_size i chunks
                = split_loop content chunk_size (i + chunk_size) (chunks @ [?x])"
      by (rule split_loop_step [OF pos True])
    show ?thesis
    proof (cases "i + chunk_size \<le> length content")
      case True
      then have "length ?x = chunk_size" by simp
      with acc have all: "\<forall>x \<in> set (chunks @ [?x]). length x = chunk_size"
        by auto
      have "\<forall>x \<in> set (butlast (split_loop content chunk_size (i + chunk_size) (chunks @ [?x]))).
              length x = chunk_size"
        using "1.IH" pos \<open>i < length content\<close> all by blast
      then show ?thesis by (simp only: step)
    next
      case False
      then have "split_loop content chunk_size (i + chunk_size) (chunks @ [?x]) = chunks @ [?x]"
        by (simp add: split_loop_stop)
      with step have "butlast (split_loop content chunk_size i chunks) = chunks"
        by simp
      then show ?thesis using acc by simp
    qed
  qed
qed

lemma split_loop_nonempty:
  "0 < n \<Longrightarrow> \<forall>x \<in> set acc. x \<noteq> [] \<Longrightarrow> \<forall>x \<in> set (split_loop c n i acc). x \<noteq> []"
proof (induction c n i acc rule: split_loop.induct)
  case (1 content chunk_size i chunks)
  note pos = "1.prems"(1) and acc = "1.prems"(2)
  show ?case
  proof (cases "i < length content")
    case False
    then have "split_loop content chunk_size i chunks = chunks"
      by (simp add: split_loop_stop)
    then show ?thesis using acc by simp
  next
    case True
    let ?x = "take chunk_size (drop i content)"
    have "?x \<noteq> []" using True pos by simp
    with acc have all: "\<forall>x \<in> set (chunks @ [?x]). x \<noteq> []" by auto
    have "\<forall>x \<in> set (split_loop content chunk_size (i + chunk_size) (chunks @ [?x])). x \<noteq> []"
      using "1.IH" pos True all by blast
    then show ?thesis by (simp only: split_loop_step [OF pos True])
  qed
qed

text \<open>
  Claim C8. For every string \<open>content\<close> and every \<open>chunk_size > 0\<close>, \<open>_split_content\<close>
  returns a list of chunks whose concatenation, in order, is \<open>content\<close>; every chunk
  except possibly the last has length exactly \<open>chunk_size\<close>; and no chunk is empty.
\<close>

theorem split_content_roundtrip:
  assumes "0 < chunk_size"
  shows "\<exists>chunks. split_content content chunk_size = Inr chunks
           \<and> concat chunks = content
           \<and> (\<forall>c \<in> set (butlast chunks). int (length c) = chunk_size)
           \<and> (\<forall>c \<in> set chunks. c \<noteq> [])"
proof -
  let ?n = "nat chunk_size"
  let ?r = "split_loop content ?n 0 []"
  have n: "0 < ?n" using assms by simp
  have "split_content content chunk_size = Inr ?r"
    using assms by (simp add: split_content_def)
  moreover have "concat ?r = content"
    using split_loop_concat [OF n, of content 0 "[]"] by simp
  moreover have "\<forall>c \<in> set (butlast ?r). int (length c) = chunk_size"
    using split_loop_full [OF n, of "[]" content 0] assms by auto
  moreover have "\<forall>c \<in> set ?r. c \<noteq> []"
    using split_loop_nonempty [OF n, of "[]" content 0] by simp
  ultimately show ?thesis by blast
qed

theorem split_content_roundtrip_witness:
  "(0::int) < 2
   \<and> split_content [1, 2, 3, 4, 5] 2 = Inr [[1, 2], [3, 4], [5]]
   \<and> concat [[1, 2], [3, 4], [5::nat]] = [1, 2, 3, 4, 5]"
proof -
  have h: "(0::int) < 2" by simp
  have e: "split_content [1, 2, 3, 4, 5] 2 = Inr [[1, 2], [3, 4], [5]]"
    by code_simp
  from split_content_roundtrip [OF h, of "[1, 2, 3, 4, 5]"] e h show ?thesis by simp
qed

section \<open>Properties of the keyword dispatch\<close>

text \<open>The executable substring test is the library's \<open>sublist\<close> relation.\<close>

lemma str_contains_sublist: "str_contains needle s = sublist needle s"
  by (induction s) (auto simp: sublist_Cons_right)

lemma keyword_loop_str:
  "keyword_loop nd request skill kws (PStr d) =
     Inr (if \<exists>kw \<in> set kws. sublist kw d then keyword_hit nd request skill else nd)"
  by (induction kws) (auto simp: str_contains_sublist keyword_hit_def split: bool.splits)

lemma skill_loop_str:
  "confidence nd \<le> 0 \<Longrightarrow>
   skill_loop nd request kb (PStr d) =
     Inr (case find (\<lambda>(skill, kws). \<exists>kw \<in> set kws. sublist kw d) kb of
            None \<Rightarrow> nd
          | Some (skill, kws) \<Rightarrow> keyword_hit nd request skill)"
proof (induction kb)
  case Nil
  then show ?case by simp
next
  case (Cons a kb)
  obtain skill kws where a: "a = (skill, kws)" by (cases a)
  show ?case
  proof (cases "\<exists>kw \<in> set kws. sublist kw d")
    case True
    then show ?thesis by (simp add: a keyword_loop_str keyword_hit_def)
  next
    case False
    then show ?thesis using Cons by (simp add: a keyword_loop_str)
  qed
qed

text \<open>
  Claim C1. A request with none of the eight data-type keys and a string under
  \<open>"description"\<close> gets, as request type, the first skill in knowledge-base order one of
  whose keywords is a substring of the description, with confidence \<open>0.7\<close>, intent
  \<open>process_<skill>\<close> and \<open>data\<close> equal to the whole request; when no keyword occurs
  the needs stay as initialised: type \<open>unknown\<close>, confidence \<open>0.0\<close>.
\<close>

theorem identify_needs_by_keyword:
  assumes "\<forall>k \<in> set data_type_keys. map_of request k = None"
    and "map_of request (ascii ''description'') = Some (PStr d)"
  shows "identify_needs request =
     Inr (case find (\<lambda>(skill, kws). \<exists>kw \<in> set kws. sublist kw d) knowledge_base_keywords of
            None \<Rightarrow>
              \<lparr>request_type = ascii ''unknown'', data_types = [], intent = [],
               confidence = 0, data = []\<rparr>
          | Some (skill, kws) \<Rightarrow>
              \<lparr>request_type = skill, data_types = [], intent = ascii ''process_'' @ skill,
               confidence = 7 / 10, data = request\<rparr>)"
proof -
  have none: "map_of request (ascii ''text'') = None"
    "map_of request (ascii ''historical_data'') = None"
    "map_of request (ascii ''heritage_data'') = None"
    "map_of request (ascii ''art_data'') = None"
    "map_of request (ascii ''language_data'') = None"
    "map_of request (ascii ''philosophy_data'') = None"
    "map_of request (ascii ''social_data'') = None"
    "map_of request (ascii ''education_data'') = None"
    using assms(1) by (simp_all add: data_type_keys_def)
  have "identify_needs request
        = skill_loop initial_needs request knowledge_base_keywords (PStr d)"
    by (simp add: identify_needs_def none assms(2))
  also have "\<dots> = Inr (case find (\<lambda>(skill, kws). \<exists>kw \<in> set kws. sublist kw d)
                               knowledge_base_keywords of
            None \<Rightarrow> initial_needs
          | Some (skill, kws) \<Rightarrow> keyword_hit initial_needs request skill)"
    by (rule skill_loop_str) (simp add: initial_needs_def)
  finally show ?thesis
    by (simp add: initial_needs_def keyword_hit_def split: option.splits)
qed

theorem identify_needs_by_keyword_witness:
  "identify_needs [(ascii ''description'', PStr [0x8FD9, 0x662F, 0x5386, 0x53F2])]
   = Inr \<lparr>request_type = ascii ''historical_research'', data_types = [],
          intent = ascii ''process_historical_research'', confidence = 7 / 10,
          data = [(ascii ''description'', PStr [0x8FD9, 0x662F, 0x5386, 0x53F2])]\<rparr>"
proof -
  let ?req = "[(ascii ''description'', PStr [0x8FD9, 0x662F, 0x5386, 0x53F2])]"
  have h1: "\<forall>k \<in> set data_type_keys. map_of ?req k = None"
    by (simp add: data_type_keys_def ascii_def)
  have h2: "map_of ?req (ascii ''description'') = Some (PStr [0x8FD9, 0x662F, 0x5386, 0x53F2])"
    by simp
  show ?thesis
    using identify_needs_by_keyword [OF h1 h2]
    by (simp add: knowledge_base_keywords_def sublist_code ascii_def)
qed

section \<open>Properties of the relationship network\<close>

subsection \<open>String order\<close>

lemma str_greater_irrefl: "\<not> str_greater a a"
  by (induction a) auto

lemma str_greater_asym: "str_greater a b \<Longrightarrow> \<not> str_greater b a"
  by (induction a b rule: str_greater.induct) auto

lemma str_greater_total: "a \<noteq> b \<Longrightarrow> str_greater a b \<or> str_greater b a"
proof (induction a b rule: str_greater.induct)
  case (1 b)
  then show ?case by (cases b) auto
next
  case (2 x xs)
  then show ?case by simp
next
  case (3 x xs y ys)
  then show ?case by auto
qed

subsection \<open>Counting pairs\<close>

lemma count_pair_keys: "fst ` set (count_pair acc k) = insert k (fst ` set acc)"
  by (induction acc k rule: count_pair.induct) auto

lemma count_pair_distinct:
  "distinct (map fst acc) \<Longrightarrow> distinct (map fst (count_pair acc k))"
proof (induction acc k rule: count_pair.induct)
  case (1 k)
  then show ?case by simp
next
  case (2 k' n rest k)
  then show ?case
    using count_pair_keys [of rest k] by (auto simp: image_iff)
qed

lemma count_pair_tally:
  "tally (count_pair acc k) k' = tally acc k' + (if k' = k then 1 else 0)"
  by (induction acc k rule: count_pair.induct) (auto simp: tally_def)

lemma foldl_count_pair_keys:
  "fst ` set (foldl count_pair acc ks) = fst ` set acc \<union> set ks"
  by (induction ks arbitrary: acc) (auto simp: count_pair_keys)

lemma foldl_count_pair_distinct:
  "distinct (map fst acc) \<Longrightarrow> distinct (map fst (foldl count_pair acc ks))"
  by (induction ks arbitrary: acc) (auto simp: count_pair_distinct)

lemma foldl_count_pair_tally:
  "tally (foldl count_pair acc ks) k = tally acc k + count_list ks k"
  by (induction ks arbitrary: acc) (auto simp: count_pair_tally)

lemma foldl_count_relationship:
  "foldl count_relationship acc rels
   = foldl count_pair acc (map norm_pair (filter (\<lambda>r. fst r \<noteq> snd r) rels))"
  by (induction rels arbitrary: acc)
     (auto simp: count_relationship_def norm_pair_def split: prod.splits)

lemma norm_pair_normalized: "fst r \<noteq> snd r \<Longrightarrow> normalized (norm_pair r)"
  by (auto simp: normalized_def norm_pair_def dest: str_greater_asym)

lemma normalized_joins:
  assumes "normalized k" and "normalized k'"
  shows "joins (fst k) (snd k) (k', w) \<longleftrightarrow> k' = k"
proof
  assume "joins (fst k) (snd k) (k', w)"
  then consider "k' = (fst k, snd k)" | "k' = (snd k, fst k)"
    by (auto simp: joins_def)
  then show "k' = k"
  proof cases
    case 1
    then show ?thesis by simp
  next
    case 2
    with assms have "\<not> str_greater (fst k) (snd k)" "\<not> str_greater (snd k) (fst k)" "fst k \<noteq> snd k"
      by (auto simp: normalized_def)
    with str_greater_total [of "fst k" "snd k"] show ?thesis by blast
  qed
next
  assume "k' = k"
  then show "joins (fst k) (snd k) (k', w)" by (simp add: joins_def)
qed

lemma add_node_edges: "edges (add_node g n) = edges g"
  by (simp add: add_node_def)

lemma add_relationship_fresh:
  assumes "normalized k" and "\<forall>e \<in> set (edges g). normalized (fst e)"
    and "k \<notin> fst ` set (edges g)"
  shows "edges (add_relationship g (k, w)) = edges g @ [(k, w)]"
proof -
  obtain s t where k: "k = (s, t)" by (cases k)
  have "\<not> joins s t e" if "e \<in> set (edges g)" for e
  proof -
    have "normalized (fst e)" using assms(2) that by blast
    with normalized_joins [OF assms(1), of "fst e" "snd e"] k
    have "joins s t e \<longleftrightarrow> fst e = k" by simp
    with assms(3) that show ?thesis by force
  qed
  then show ?thesis
    by (auto simp: add_relationship_def add_edge_def Let_def k add_node_edges)
qed

lemma foldl_add_relationship_edges:
  assumes "\<forall>e \<in> set (edges g). normalized (fst e)"
    and "\<forall>e \<in> set cs. normalized (fst e)"
    and "distinct (map fst (edges g @ cs))"
  shows "edges (foldl add_relationship g cs) = edges g @ cs"
  using assms
proof (induction cs arbitrary: g)
  case Nil
  then show ?case by simp
next
  case (Cons c cs)
  obtain k w where c: "c = (k, w)" by (cases c)
  have fresh: "edges (add_relationship g (k, w)) = edges g @ [(k, w)]"
    using Cons.prems c by (intro add_relationship_fresh) auto
  have "edges (foldl add_relationship (add_relationship g (k, w)) cs)
        = edges (add_relationship g (k, w)) @ cs"
    using Cons.prems c fresh by (intro Cons.IH) auto
  then show ?case by (simp add: c fresh)
qed

lemma count_list_map_filter:
  "count_list (map f (filter P xs)) k = length (filter (\<lambda>x. P x \<and> f x = k) xs)"
  by (induction xs) auto

lemma both_orientations:
  assumes "normalized (u, v)"
  shows "(fst r \<noteq> snd r \<and> norm_pair r = (u, v)) \<longleftrightarrow> (r = (u, v) \<or> r = (v, u))"
proof -
  from assms have uv: "u \<noteq> v" "\<not> str_greater u v" by (auto simp: normalized_def)
  then have vu: "str_greater v u" using str_greater_total [of u v] by blast
  show ?thesis
    using uv vu by (cases r) (auto simp: norm_pair_def)
qed

lemma relationship_counts_keys:
  "fst ` set (foldl count_relationship [] rels)
   = set (map norm_pair (filter (\<lambda>r. fst r \<noteq> snd r) rels))"
  by (simp only: foldl_count_relationship foldl_count_pair_keys) simp

lemma relationship_counts_distinct:
  "distinct (map fst (foldl count_relationship [] rels))"
  by (simp only: foldl_count_relationship) (rule foldl_count_pair_distinct, simp)

lemma relationship_counts_normalized:
  assumes "e \<in> set (foldl count_relationship [] rels)"
  shows "normalized (fst e)"
proof -
  from assms have "fst e \<in> fst ` set (foldl count_relationship [] rels)" by (rule imageI)
  then obtain r where "fst r \<noteq> snd r" "fst e = norm_pair r"
    unfolding relationship_counts_keys by auto
  then show ?thesis by (simp add: norm_pair_normalized)
qed

lemma relationship_counts_weight:
  assumes "((u, v), w) \<in> set (foldl count_relationship [] rels)"
  shows "w = length (filter (\<lambda>r. r = (u, v) \<or> r = (v, u)) rels)"
proof -
  let ?ks = "map norm_pair (filter (\<lambda>r. fst r \<noteq> snd r) rels)"
  let ?cs = "foldl count_pair [] ?ks"
  have cs: "foldl count_relationship [] rels = ?cs" by (rule foldl_count_relationship)
  have nuv: "normalized (u, v)"
    using relationship_counts_normalized [OF assms] by simp
  have "distinct (map fst ?cs)" by (rule foldl_count_pair_distinct) simp
  moreover have "((u, v), w) \<in> set ?cs" using assms cs by simp
  ultimately have "map_of ?cs (u, v) = Some w" by (rule map_of_is_SomeI)
  then have "w = tally ?cs (u, v)" by (simp add: tally_def)
  also have "\<dots> = tally [] (u, v) + count_list ?ks (u, v)"
    by (rule foldl_count_pair_tally)
  also have "\<dots> = count_list ?ks (u, v)" by (simp add: tally_def)
  also have "\<dots> = length (filter (\<lambda>r. fst r \<noteq> snd r \<and> norm_pair r = (u, v)) rels)"
    by (rule count_list_map_filter)
  also have "\<dots> = length (filter (\<lambda>r. r = (u, v) \<or> r = (v, u)) rels)"
    by (simp only: both_orientations [OF nuv])
  finally show ?thesis .
qed

lemma relationship_counts_positive:
  assumes "(k, w) \<in> set (foldl count_relationship [] rels)"
  shows "0 < w"
proof -
  let ?ks = "map norm_pair (filter (\<lambda>r. fst r \<noteq> snd r) rels)"
  let ?cs = "foldl count_pair [] ?ks"
  have cs: "foldl count_relationship [] rels = ?cs" by (rule foldl_count_relationship)
  have "k \<in> fst ` set (foldl count_relationship [] rels)"
    using assms by (metis fst_conv imageI)
  then have "k \<in> set ?ks" unfolding relationship_counts_keys .
  then have pos: "count_list ?ks k \<noteq> 0" by (simp only: count_list_0_iff not_not)
  have "distinct (map fst ?cs)" by (rule foldl_count_pair_distinct) simp
  moreover have "(k, w) \<in> set ?cs" using assms cs by simp
  ultimately have "map_of ?cs k = Some w" by (rule map_of_is_SomeI)
  then have "w = tally ?cs k" by (simp add: tally_def)
  also have "\<dots> = tally [] k + count_list ?ks k" by (rule foldl_count_pair_tally)
  finally show ?thesis using pos by (simp add: tally_def)
qed

lemma build_network_edges_eq:
  "edges (graph (build_network lib (network_analysis_init ts)))
   = foldl count_relationship [] (extract_relationships lib ts)"
proof -
  let ?cs = "foldl count_relationship [] (extract_relationships lib ts)"
  have "edges (foldl add_relationship empty_graph ?cs) = edges empty_graph @ ?cs"
  proof (rule foldl_add_relationship_edges)
    show "\<forall>e \<in> set (edges empty_graph). normalized (fst e)" by (simp add: empty_graph_def)
    show "\<forall>e \<in> set ?cs. normalized (fst e)" by (blast intro: relationship_counts_normalized)
    show "distinct (map fst (edges empty_graph @ ?cs))"
      using relationship_counts_distinct [of "extract_relationships lib ts"]
      by (simp add: empty_graph_def)
  qed
  moreover have "edges empty_graph = []" by (simp add: empty_graph_def)
  moreover have "graph (build_network lib (network_analysis_init ts))
                 = foldl add_relationship empty_graph ?cs"
    by (simp add: build_network_def network_analysis_init_def Let_def)
  ultimately show ?thesis by simp
qed

lemma sample_graph:
  "graph (build_network sample_nlp (network_analysis_init [[65, 120, 66, 120, 65]]))
   = \<lparr>nodes = [[65], [66]], edges = [(([65], [66]), 2)]\<rparr>"
  by code_simp

text \<open>
  Claim C10. In the graph \<open>build_network\<close> produces for a list of texts, no edge joins a
  node to itself, and the weight of every edge is a positive integer: the number of
  extracted pairs of its two end points, in either orientation.
\<close>

theorem build_network_edges:
  assumes "((u, v), w) \<in> set (edges (graph (build_network lib (network_analysis_init ts))))"
  shows "u \<noteq> v \<and> 0 < w
         \<and> w = length (filter (\<lambda>r. r = (u, v) \<or> r = (v, u)) (extract_relationships lib ts))"
proof -
  from assms have mem: "((u, v), w) \<in> set (foldl count_relationship [] (extract_relationships lib ts))"
    by (simp only: build_network_edges_eq)
  have "normalized (u, v)" using relationship_counts_normalized [OF mem] by simp
  then have "u \<noteq> v" by (simp add: normalized_def)
  moreover have "0 < w" by (rule relationship_counts_positive [OF mem])
  moreover have "w = length (filter (\<lambda>r. r = (u, v) \<or> r = (v, u)) (extract_relationships lib ts))"
    by (rule relationship_counts_weight [OF mem])
  ultimately show ?thesis by blast
qed


theorem build_network_edges_witness:
  "(([65], [66]), 2) \<in> set (edges (graph (build_network sample_nlp
        (network_analysis_init [[65, 120, 66, 120, 65]]))))
   \<and> [65] \<noteq> [66::nat] \<and> (0::nat) < 2
   \<and> (2::nat) = length (filter (\<lambda>r. r = ([65], [66]) \<or> r = ([66], [65]))
                         (extract_relationships sample_nlp [[65, 120, 66, 120, 65]]))"
proof -
  have h: "(([65], [66]), 2) \<in> set (edges (graph (build_network sample_nlp
        (network_analysis_init [[65, 120, 66, 120, 65]]))))"
    by (simp add: sample_graph)
  from build_network_edges [OF h] h show ?thesis by simp
qed

text \<open>
  Claim C7. \<open>analyze_network\<close> builds the network first when the graph has no nodes, and
  the dictionary it returns holds under \<open>"nodes"\<close> and \<open>"edges"\<close> the numbers of nodes
  and edges of the graph the instance then has. It returns whenever the community
  detection of the library does.
\<close>

theorem analyze_network_counts:
  fixes lib :: nlp and nx :: nxlib and na :: network_analysis
  assumes "detect_communities nx
             (if nodes (graph na) = [] then graph (build_network lib na) else graph na)
           = Inr communities"
  shows "\<exists>d. fst (analyze_network lib nx na) = Inr (PDict d)
     \<and> graph (snd (analyze_network lib nx na))
         = (if nodes (graph na) = [] then graph (build_network lib na) else graph na)
     \<and> map_of d (ascii ''nodes'')
         = Some (PInt (int (length (nodes (graph (snd (analyze_network lib nx na)))))))
     \<and> map_of d (ascii ''edges'')
         = Some (PInt (int (length (edges (graph (snd (analyze_network lib nx na)))))))"
proof -
  have g: "graph (ensure_built lib na)
           = (if nodes (graph na) = [] then graph (build_network lib na) else graph na)"
    by (simp add: ensure_built_def)
  have dc: "detect_communities nx (graph (ensure_built lib na)) = Inr communities"
    using assms g by simp
  have snd_eq: "snd (analyze_network lib nx na) = ensure_built lib na"
    by (simp add: analyze_network_def Let_def)
  show ?thesis
    unfolding snd_eq g [symmetric]
    by (simp add: analyze_network_def Let_def dc ascii_def)
qed

theorem analyze_network_counts_witness:
  "\<exists>d. fst (analyze_network sample_nlp sample_nx (network_analysis_init [[65, 120, 66, 120, 65]]))
        = Inr (PDict d)
     \<and> map_of d (ascii ''nodes'') = Some (PInt 2)
     \<and> map_of d (ascii ''edges'') = Some (PInt 1)"
proof -
  let ?na = "network_analysis_init [[65, 120, 66, 120, 65]]"
  have e: "nodes (graph ?na) = []"
    by (simp add: network_analysis_init_def empty_graph_def)
  have h: "detect_communities sample_nx
             (if nodes (graph ?na) = [] then graph (build_network sample_nlp ?na) else graph ?na)
           = Inr (PList [PList [PStr [65], PStr [66]]])"
    by (simp add: e sample_graph detect_communities_def sample_nx_def communities_value_def)
  from analyze_network_counts [OF h] obtain d where
    d1: "fst (analyze_network sample_nlp sample_nx ?na) = Inr (PDict d)" and
    d2: "graph (snd (analyze_network sample_nlp sample_nx ?na))
         = (if nodes (graph ?na) = [] then graph (build_network sample_nlp ?na) else graph ?na)" and
    d3: "map_of d (ascii ''nodes'')
         = Some (PInt (int (length (nodes (graph (snd (analyze_network sample_nlp sample_nx ?na)))))))" and
    d4: "map_of d (ascii ''edges'')
         = Some (PInt (int (length (edges (graph (snd (analyze_network sample_nlp sample_nx ?na)))))))"
    by blast
  have g: "graph (snd (analyze_network sample_nlp sample_nx ?na))
           = \<lparr>nodes = [[65], [66]], edges = [(([65], [66]), 2)]\<rparr>"
    using d2 by (simp add: e sample_graph)
  show ?thesis
    using d1 d3 d4 by (intro exI [of _ d]) (simp add: g)
qed

section \<open>Properties of the batch run\<close>


lemma write_text_directories:
  "write_text st p c = Inr st' \<Longrightarrow> directories st' = directories st"
  by (auto simp: write_text_def split: if_splits)


text \<open>What one pass of the loop body does, by cases.\<close>

lemma process_one_skip:
  "\<not> has_extension exts n \<Longrightarrow> process_one env exts out r (st, s) n = (st, s)"
  by (simp add: process_one_def)


lemma process_one_cases:
  assumes "has_extension exts n"
  obtains (failed) e where
      "process_one env exts out r (st, s) n
       = (st, record_failure env n e (s\<lparr>total_files := total_files s + 1\<rparr>))"
  | (succeeded) content result st' where
      "read_text st (r @ [n]) = Inr content"
      "write_text st (result_path out n) (dumps env result) = Inr st'"
      "process_one env exts out r (st, s) n
       = (st', record_success env n (result_path out n) (s\<lparr>total_files := total_files s + 1\<rparr>))"
proof (cases "read_text st (r @ [n])")
  case (Inl e)
  then show ?thesis using assms failed by (simp add: process_one_def Let_def)
next
  case (Inr content)
  note rd = this
  show ?thesis
  proof (cases "process_file (err_str env) (request_clock env (r @ [n])) content n")
    case (Inl e)
    then show ?thesis using assms rd failed by (simp add: process_one_def Let_def)
  next
    case (Inr result)
    note pf = this
    show ?thesis
    proof (cases "write_text st (result_path out n) (dumps env result)")
      case (Inl e)
      then show ?thesis using assms rd pf failed by (simp add: process_one_def Let_def)
    next
      case (Inr st')
      then show ?thesis
        using assms rd pf succeeded [of content result st']
        by (simp add: process_one_def Let_def)
    qed
  qed
qed

lemma run_files_Nil: "run_files env exts out acc [] = acc"
  by (simp add: run_files_def)

lemma run_files_Cons:
  "run_files env exts out acc ((r, n) # rns)
   = run_files env exts out (process_one env exts out r acc n) rns"
  by (simp add: run_files_def)

lemma run_files_snoc:
  "run_files env exts out acc (rns @ [(r, n)])
   = process_one env exts out r (run_files env exts out acc rns) n"
  by (simp add: run_files_def)










text \<open>
  Claim C5. For an input folder that does not exist, \<open>process_folder\<close> returns a
  dictionary with the single key \<open>error\<close> and leaves the file system as it was: no
  folder is created and no file is written.
\<close>

theorem process_folder_missing_input:
  assumes "\<not> path_exists st input_folder"
  shows "\<exists>msg. process_folder env input_folder output_folder exts walk st
               = (Inr (PDict [(ascii ''error'', PStr msg)]), st)"
  using assms by (simp add: process_folder_def)

















lemma process_one_directories:
  assumes "process_one env exts out r (st, s) n = (st', s')"
  shows "directories st' = directories st"
proof (cases "has_extension exts n")
  case False
  then show ?thesis using assms by (simp add: process_one_skip)
next
  case True
  then show ?thesis
  proof (cases rule: process_one_cases [of exts n env out r st s])
    case (failed e)
    then show ?thesis using assms by simp
  next
    case (succeeded content result st'')
    then show ?thesis using assms write_text_directories [OF succeeded(2)] by simp
  qed
qed







lemma run_files_directories:
  "directories (fst (run_files env exts out acc rns)) = directories (fst acc)"
proof (induction rns arbitrary: acc)
  case Nil
  then show ?case by (simp add: run_files_Nil)
next
  case (Cons rn rns)
  obtain r n where rn: "rn = (r, n)" by (cases rn)
  obtain st s where acc: "acc = (st, s)" by (cases acc)
  obtain st' s' where step: "process_one env exts out r (st, s) n = (st', s')"
    by (cases "process_one env exts out r (st, s) n")
  show ?case
    using Cons.IH [of "(st', s')"] process_one_directories [OF step]
    by (simp add: rn acc run_files_Cons step)
qed


















theorem process_folder_missing_input_witness:
  "\<not> path_exists sample_fs [ascii ''nowhere'']
   \<and> (\<exists>msg. process_folder sample_env [ascii ''nowhere''] [ascii ''out''] default_extensions
               sample_walk sample_fs
             = (Inr (PDict [(ascii ''error'', PStr msg)]), sample_fs))"
proof -
  have h: "\<not> path_exists sample_fs [ascii ''nowhere'']"
    by (simp add: path_exists_def sample_fs_def ascii_def)
  from process_folder_missing_input [OF h] h show ?thesis by blast
qed

section \<open>Properties of the image analyzer\<close>

lemma color_distribution_shape:
  "\<exists>cd. analyze_color_distribution cv img = PDict cd
        \<and> map fst cd = color_distribution_keys
        \<and> (\<forall>v \<in> set (map snd cd). \<exists>f. v = PFloat f)"
  by (simp add: analyze_color_distribution_def color_distribution_keys_def Let_def
        split: prod.splits)

text \<open>
  Claim C6. For an ImageAnalyzer whose image and gray image are loaded, \<open>analyze\<close>
  returns a dictionary whose entry \<open>color_distribution\<close> is a dictionary with exactly
  the twelve keys \<open>mean_r\<close>, \<open>mean_g\<close>, \<open>mean_b\<close>, \<open>std_r\<close>, \<open>std_g\<close>,
  \<open>std_b\<close>, \<open>mean_l\<close>, \<open>mean_a\<close>, \<open>mean_b_lab\<close>, \<open>std_l\<close>, \<open>std_a\<close>,
  \<open>std_b_lab\<close>, each holding a float, among them \<open>mean_l\<close> and \<open>std_l\<close>; when the
  image is not loaded it returns a dictionary with the key \<open>error\<close>.
\<close>

theorem analyze_color_distribution_keys:
  "(image ia = None \<longrightarrow>
      analyze cv ia = Inr (PDict [(ascii ''error'', PStr [0x56FE, 0x50CF, 0x672A, 0x52A0, 0x8F7D])]))
   \<and> (image ia \<noteq> None \<and> gray_image ia \<noteq> None \<longrightarrow>
        (\<exists>d cd. analyze cv ia = Inr (PDict d)
           \<and> map_of d (ascii ''color_distribution'') = Some (PDict cd)
           \<and> map fst cd = color_distribution_keys
           \<and> (\<forall>v \<in> set (map snd cd). \<exists>f. v = PFloat f)
           \<and> map_of cd (ascii ''mean_l'') \<noteq> None \<and> map_of cd (ascii ''std_l'') \<noteq> None))"
proof (intro conjI impI)
  assume "image ia = None"
  then show "analyze cv ia = Inr (PDict [(ascii ''error'', PStr [0x56FE, 0x50CF, 0x672A, 0x52A0, 0x8F7D])])"
    by (simp add: analyze_def)
next
  assume "image ia \<noteq> None \<and> gray_image ia \<noteq> None"
  then obtain img gray where ig: "image ia = Some img" "gray_image ia = Some gray" by auto
  from color_distribution_shape [of cv img] obtain cd where
    cd: "analyze_color_distribution cv img = PDict cd"
      "map fst cd = color_distribution_keys"
      "\<forall>v \<in> set (map snd cd). \<exists>f. v = PFloat f"
    by blast
  have "ascii ''mean_l'' \<in> set (map fst cd)" "ascii ''std_l'' \<in> set (map fst cd)"
    by (simp_all add: cd(2) color_distribution_keys_def)
  then have "map_of cd (ascii ''mean_l'') \<noteq> None" "map_of cd (ascii ''std_l'') \<noteq> None"
    by (simp_all only: map_of_eq_None_iff set_map not_not)
  then show "\<exists>d cd. analyze cv ia = Inr (PDict d)
           \<and> map_of d (ascii ''color_distribution'') = Some (PDict cd)
           \<and> map fst cd = color_distribution_keys
           \<and> (\<forall>v \<in> set (map snd cd). \<exists>f. v = PFloat f)
           \<and> map_of cd (ascii ''mean_l'') \<noteq> None \<and> map_of cd (ascii ''std_l'') \<noteq> None"
    using cd by (simp add: analyze_def ig)
qed

lemma load_image_success:
  assumes "imread cv (image_path ia) = Some bgr" and "cvt_bgr2rgb cv bgr = Inr rgb"
    and "cvt_rgb2gray cv rgb = Inr gray"
  shows "image (load_image cv ia) = Some rgb \<and> gray_image (load_image cv ia) = Some gray"
  using assms by (simp add: load_image_def)

lemma load_image_unreadable:
  "imread cv (image_path ia) = None \<Longrightarrow> image (load_image cv ia) = None"
  by (simp add: load_image_def)

theorem analyze_color_distribution_keys_witness:
  "image (image_analyzer_init sample_cv [ascii ''a.png'']) \<noteq> None
   \<and> gray_image (image_analyzer_init sample_cv [ascii ''a.png'']) \<noteq> None
   \<and> (\<exists>d cd. analyze sample_cv (image_analyzer_init sample_cv [ascii ''a.png'']) = Inr (PDict d)
         \<and> map_of d (ascii ''color_distribution'') = Some (PDict cd)
         \<and> map fst cd = color_distribution_keys)
   \<and> image (image_analyzer_init sample_cv []) = None
   \<and> analyze sample_cv (image_analyzer_init sample_cv [])
       = Inr (PDict [(ascii ''error'', PStr [0x56FE, 0x50CF, 0x672A, 0x52A0, 0x8F7D])])"
proof -
  let ?a = "image_analyzer_init sample_cv [ascii ''a.png'']"
  let ?b = "image_analyzer_init sample_cv []"
  have a: "image ?a \<noteq> None \<and> gray_image ?a \<noteq> None"
    by (simp add: image_analyzer_init_def load_image_def sample_cv_def)
  have b: "image ?b = None"
    by (simp add: image_analyzer_init_def load_image_def sample_cv_def)
  from analyze_color_distribution_keys [of ?a sample_cv] a
  have "\<exists>d cd. analyze sample_cv ?a = Inr (PDict d)
         \<and> map_of d (ascii ''color_distribution'') = Some (PDict cd)
         \<and> map fst cd = color_distribution_keys"
    by blast
  moreover from analyze_color_distribution_keys [of ?b sample_cv] b
  have "analyze sample_cv ?b
        = Inr (PDict [(ascii ''error'', PStr [0x56FE, 0x50CF, 0x672A, 0x52A0, 0x8F7D])])"
    by blast
  ultimately show ?thesis using a b by blast
qed

section \<open>Properties of the cultural analyzer guards\<close>

text \<open>
  Claim C4 as stated fails for \<open>network_analysis\<close>: on an empty DataFrame, and on a
  DataFrame without the edge column, it returns \<open>None\<close>, not a dictionary.
\<close>

theorem network_analysis_returns_none_counterexample:
  "df_empty sample_pd ([], 0)
   \<and> network_analysis sample_pd ([], 0) (ascii ''artist'') (ascii ''influences'') = Inr None
   \<and> \<not> df_empty sample_pd ([ascii ''artist''], 3)
   \<and> ascii ''influences'' \<notin> set (df_columns sample_pd ([ascii ''artist''], 3))
   \<and> network_analysis sample_pd ([ascii ''artist''], 3) (ascii ''artist'') (ascii ''influences'')
       = Inr None"
  by (simp add: network_analysis_def sample_pd_def ascii_def)

text \<open>
  Claim C4, amended. On an empty DataFrame \<open>descriptive_statistics\<close>,
  \<open>correlation_analysis\<close>, \<open>cluster_analysis\<close>, \<open>time_series_analysis\<close>,
  \<open>geographic_analysis\<close> and \<open>sentiment_analysis\<close> return a dictionary with the key
  \<open>error\<close>, and \<open>network_analysis\<close> returns \<open>None\<close>. On a non-empty DataFrame a
  missing time or value column of \<open>time_series_analysis\<close>, a missing latitude or
  longitude column of \<open>geographic_analysis\<close> and a missing text column of
  \<open>sentiment_analysis\<close> give a dictionary with the key \<open>error\<close>; a missing node or
  edge column of \<open>network_analysis\<close> gives \<open>None\<close>; and a missing optional value
  column of \<open>geographic_analysis\<close> is passed over.
\<close>

theorem cultural_analyzer_guards:
  "(df_empty pd df \<longrightarrow>
        descriptive_statistics pd df = Inr (error_dict msg_empty)
      \<and> correlation_analysis pd df = Inr (error_dict msg_empty)
      \<and> cluster_analysis pd df n_clusters = Inr (error_dict msg_empty)
      \<and> time_series_analysis pd estr df time_col value_col = (Inr (error_dict msg_empty), df)
      \<and> geographic_analysis pd df lat_col lon_col opt_col = Inr (error_dict msg_empty)
      \<and> sentiment_analysis pd df text_col = Inr (error_dict msg_empty)
      \<and> network_analysis pd df node_col edge_col = Inr None)
   \<and> (\<not> df_empty pd df \<longrightarrow>
        (time_col \<notin> set (df_columns pd df) \<or> value_col \<notin> set (df_columns pd df) \<longrightarrow>
           time_series_analysis pd estr df time_col value_col = (Inr (error_dict msg_no_column), df))
      \<and> (lat_col \<notin> set (df_columns pd df) \<or> lon_col \<notin> set (df_columns pd df) \<longrightarrow>
           geographic_analysis pd df lat_col lon_col opt_col = Inr (error_dict msg_no_coordinates))
      \<and> (text_col \<notin> set (df_columns pd df) \<longrightarrow>
           sentiment_analysis pd df text_col = Inr (error_dict msg_no_text_column))
      \<and> (node_col \<notin> set (df_columns pd df) \<or> edge_col \<notin> set (df_columns pd df) \<longrightarrow>
           network_analysis pd df node_col edge_col = Inr None)
      \<and> (lat_col \<in> set (df_columns pd df) \<and> lon_col \<in> set (df_columns pd df)
           \<and> geographic_pipeline pd df lat_col lon_col = Inr geo_stats
           \<and> absent_col \<notin> set (df_columns pd df) \<longrightarrow>
           geographic_analysis pd df lat_col lon_col (Some absent_col) = Inr (PDict geo_stats)))"
proof (intro conjI impI)
  assume "df_empty pd df"
  then show "descriptive_statistics pd df = Inr (error_dict msg_empty)"
    "correlation_analysis pd df = Inr (error_dict msg_empty)"
    "cluster_analysis pd df n_clusters = Inr (error_dict msg_empty)"
    "time_series_analysis pd estr df time_col value_col = (Inr (error_dict msg_empty), df)"
    "geographic_analysis pd df lat_col lon_col opt_col = Inr (error_dict msg_empty)"
    "sentiment_analysis pd df text_col = Inr (error_dict msg_empty)"
    "network_analysis pd df node_col edge_col = Inr None"
    by (simp_all add: descriptive_statistics_def correlation_analysis_def cluster_analysis_def
          time_series_analysis_def geographic_analysis_def sentiment_analysis_def
          network_analysis_def)
next
  assume "\<not> df_empty pd df"
    and "time_col \<notin> set (df_columns pd df) \<or> value_col \<notin> set (df_columns pd df)"
  then show "time_series_analysis pd estr df time_col value_col = (Inr (error_dict msg_no_column), df)"
    by (simp add: time_series_analysis_def)
next
  assume "\<not> df_empty pd df"
    and "lat_col \<notin> set (df_columns pd df) \<or> lon_col \<notin> set (df_columns pd df)"
  then show "geographic_analysis pd df lat_col lon_col opt_col = Inr (error_dict msg_no_coordinates)"
    by (simp add: geographic_analysis_def)
next
  assume "\<not> df_empty pd df" and "text_col \<notin> set (df_columns pd df)"
  then show "sentiment_analysis pd df text_col = Inr (error_dict msg_no_text_column)"
    by (simp add: sentiment_analysis_def)
next
  assume "\<not> df_empty pd df"
    and "node_col \<notin> set (df_columns pd df) \<or> edge_col \<notin> set (df_columns pd df)"
  then show "network_analysis pd df node_col edge_col = Inr None"
    by (simp add: network_analysis_def)
next
  assume "\<not> df_empty pd df"
    and "lat_col \<in> set (df_columns pd df) \<and> lon_col \<in> set (df_columns pd df)
           \<and> geographic_pipeline pd df lat_col lon_col = Inr geo_stats
           \<and> absent_col \<notin> set (df_columns pd df)"
  then show "geographic_analysis pd df lat_col lon_col (Some absent_col) = Inr (PDict geo_stats)"
    by (simp add: geographic_analysis_def)
qed

theorem cultural_analyzer_guards_witness:
  "df_empty sample_pd ([], 0)
   \<and> descriptive_statistics sample_pd ([], 0) = Inr (error_dict msg_empty)
   \<and> network_analysis sample_pd ([], 0) (ascii ''artist'') (ascii ''influences'') = Inr None
   \<and> \<not> df_empty sample_pd ([ascii ''artist''], 3)
   \<and> ascii ''year'' \<notin> set (df_columns sample_pd ([ascii ''artist''], 3))
   \<and> time_series_analysis sample_pd (\<lambda>e. []) ([ascii ''artist''], 3) (ascii ''year'') (ascii ''artist'')
       = (Inr (error_dict msg_no_column), ([ascii ''artist''], 3))
   \<and> sentiment_analysis sample_pd ([ascii ''artist''], 3) (ascii ''year'')
       = Inr (error_dict msg_no_text_column)"
proof -
  have e: "df_empty sample_pd ([], 0)" by (simp add: sample_pd_def)
  have n: "\<not> df_empty sample_pd ([ascii ''artist''], 3)" by (simp add: sample_pd_def)
  have c: "ascii ''year'' \<notin> set (df_columns sample_pd ([ascii ''artist''], 3))"
    by (simp add: sample_pd_def ascii_def)
  from cultural_analyzer_guards [of sample_pd "([], 0)" "3" "\<lambda>e. []" "ascii ''year''" "ascii ''artist''"
      "ascii ''lat''" "ascii ''lon''" None "ascii ''year''" "ascii ''artist''" "ascii ''influences''"
      "[]" "ascii ''price''"]
    e
  have p1: "descriptive_statistics sample_pd ([], 0) = Inr (error_dict msg_empty)"
    "network_analysis sample_pd ([], 0) (ascii ''artist'') (ascii ''influences'') = Inr None"
    by blast+
  from cultural_analyzer_guards [of sample_pd "([ascii ''artist''], 3)" "3" "\<lambda>e. []" "ascii ''year''"
      "ascii ''artist''" "ascii ''lat''" "ascii ''lon''" None "ascii ''year''" "ascii ''artist''"
      "ascii ''influences''" "[]" "ascii ''price''"]
    n c
  have p2: "time_series_analysis sample_pd (\<lambda>e. []) ([ascii ''artist''], 3) (ascii ''year'') (ascii ''artist'')
       = (Inr (error_dict msg_no_column), ([ascii ''artist''], 3))"
    "sentiment_analysis sample_pd ([ascii ''artist''], 3) (ascii ''year'')
       = Inr (error_dict msg_no_text_column)"
    by blast+
  show ?thesis using e n c p1 p2 by blast
qed

section \<open>Which failures reach the caller\<close>

lemma process_request_body_text_int:
  "process_request_body now [(ascii ''text'', PInt 5)] = Inl TypeError"
  by (simp add: process_request_body_def identify_needs_def data_branch_def initial_needs_def
        match_skills_def skills_def needs_dict_def text_analysis_process_def lookup_field_def
        ascii_def)

text \<open>
  Claim C2 as stated fails: \<open>export_network\<close> with the format \<open>xml\<close> raises
  \<open>ValueError\<close> to its caller.
\<close>

theorem export_network_raises_counterexample:
  "fst (export_network sample_nlp sample_writers (dumps sample_env) (network_analysis_init [])
          [ascii ''network.xml''] (ascii ''xml'') sample_fs)
   = Inl ValueError"
  by (simp add: export_network_def Let_def ascii_def)

text \<open>
  Claim C2, amended. \<open>process_request\<close> always returns a dictionary, and for every
  request on which a step of its body raises, that dictionary has exactly the keys
  \<open>error\<close> and \<open>timestamp\<close>; \<open>load_image\<close> swallows an unreadable image and leaves
  \<open>image\<close> as \<open>None\<close>; but an operation without \<open>try\<close> does propagate:
  \<open>export_network\<close> raises \<open>ValueError\<close> for every format other than \<open>graphml\<close>,
  \<open>gexf\<close>, \<open>gml\<close> and \<open>json\<close>, and changes no file.
\<close>

theorem failures_caught_or_raised:
  "(\<exists>d. process_request estr now request = PDict d)
   \<and> (\<forall>e. process_request_body now request = Inl e \<longrightarrow>
         process_request estr now request
         = PDict [(ascii ''error'', PStr (estr e)), (ascii ''timestamp'', PStr now)])
   \<and> (imread cv (image_path ia) = None \<longrightarrow> image (load_image cv ia) = None)
   \<and> (fmt \<notin> {ascii ''graphml'', ascii ''gexf'', ascii ''gml'', ascii ''json''} \<longrightarrow>
         export_network lib wr json_dumps na file_path fmt st
         = (Inl ValueError, ensure_built lib na, st))"
proof (intro conjI allI impI)
  show "\<exists>d. process_request estr now request = PDict d"
    by (auto simp: process_request_def process_request_body_def Let_def split: sum.splits)
next
  fix e assume "process_request_body now request = Inl e"
  then show "process_request estr now request
         = PDict [(ascii ''error'', PStr (estr e)), (ascii ''timestamp'', PStr now)]"
    by (simp add: process_request_def)
next
  assume "imread cv (image_path ia) = None"
  then show "image (load_image cv ia) = None" by (simp add: load_image_def)
next
  assume "fmt \<notin> {ascii ''graphml'', ascii ''gexf'', ascii ''gml'', ascii ''json''}"
  then show "export_network lib wr json_dumps na file_path fmt st
         = (Inl ValueError, ensure_built lib na, st)"
    by (simp add: export_network_def Let_def)
qed

theorem failures_caught_or_raised_witness:
  "process_request_body (ascii ''now'') [(ascii ''text'', PInt 5)] = Inl TypeError
   \<and> process_request (\<lambda>e. ascii ''no len'') (ascii ''now'') [(ascii ''text'', PInt 5)]
       = PDict [(ascii ''error'', PStr (ascii ''no len'')), (ascii ''timestamp'', PStr (ascii ''now''))]
   \<and> imread sample_cv (image_path \<lparr>image_path = [], image = None, gray_image = None\<rparr>) = None
   \<and> image (load_image sample_cv \<lparr>image_path = [], image = None, gray_image = None\<rparr>) = None
   \<and> ascii ''xml'' \<notin> {ascii ''graphml'', ascii ''gexf'', ascii ''gml'', ascii ''json''}
   \<and> export_network sample_nlp sample_writers (dumps sample_env) (network_analysis_init [])
        [ascii ''network.xml''] (ascii ''xml'') sample_fs
       = (Inl ValueError, ensure_built sample_nlp (network_analysis_init []), sample_fs)"
proof -
  have h1: "process_request_body (ascii ''now'') [(ascii ''text'', PInt 5)] = Inl TypeError"
    by (rule process_request_body_text_int)
  have h2: "imread sample_cv (image_path \<lparr>image_path = [], image = None, gray_image = None\<rparr>) = None"
    by (simp add: sample_cv_def)
  have h3: "ascii ''xml'' \<notin> {ascii ''graphml'', ascii ''gexf'', ascii ''gml'', ascii ''json''}"
    by (simp add: ascii_def)
  note t = failures_caught_or_raised [of "\<lambda>e. ascii ''no len''" "ascii ''now''"
      "[(ascii ''text'', PInt 5)]" sample_cv
      "\<lparr>image_path = [], image = None, gray_image = None\<rparr>" "ascii ''xml''"
      sample_nlp sample_writers "dumps sample_env" "network_analysis_init []"
      "[ascii ''network.xml'']" sample_fs]
  note a = t [THEN conjunct2, THEN conjunct1, rule_format, OF h1]
  note b = t [THEN conjunct2, THEN conjunct2, THEN conjunct1, rule_format, OF h2]
  note c = t [THEN conjunct2, THEN conjunct2, THEN conjunct2, rule_format, OF h3]
  show ?thesis
    by (intro conjI) (rule h1, rule a, rule h2, rule b, rule h3, rule c)
qed

end
